theory Spec2Isabelle
  imports Complex_Main "HOL-Library.AList"
begin

section \<open>JavaScript values\<close>

text \<open>
  The worker \<^verbatim>\<open>ComponentWorkerV3\<close> (file \<^verbatim>\<open>core/componentWorkerV3.js\<close>) is
  embedded function by function. JavaScript is dynamically typed, so the values the
  worker reads from a descriptor are modelled by one datatype, and a number is a real,
  \<^verbatim>\<open>NaN\<close> or an infinity. The arithmetic below is IEEE arithmetic on these four kinds
  of value with exact real results: the rounding of double precision and the sign of
  zero are not modelled.
\<close>

datatype jsnum = Num real | NaN | PosInf | NegInf

fun js_neg :: "jsnum \<Rightarrow> jsnum" where
  "js_neg (Num a) = Num (- a)"
| "js_neg NaN = NaN"
| "js_neg PosInf = NegInf"
| "js_neg NegInf = PosInf"

fun js_add :: "jsnum \<Rightarrow> jsnum \<Rightarrow> jsnum" where
  "js_add (Num a) (Num b) = Num (a + b)"
| "js_add NaN _ = NaN"
| "js_add _ NaN = NaN"
| "js_add PosInf NegInf = NaN"
| "js_add NegInf PosInf = NaN"
| "js_add PosInf _ = PosInf"
| "js_add NegInf _ = NegInf"
| "js_add (Num a) b = b"

definition js_sub :: "jsnum \<Rightarrow> jsnum \<Rightarrow> jsnum" where
  "js_sub a b = js_add a (js_neg b)"

definition signed_inf :: "bool \<Rightarrow> jsnum" where
  "signed_inf positive = (if positive then PosInf else NegInf)"

fun js_mul :: "jsnum \<Rightarrow> jsnum \<Rightarrow> jsnum" where
  "js_mul (Num a) (Num b) = Num (a * b)"
| "js_mul NaN _ = NaN"
| "js_mul _ NaN = NaN"
| "js_mul PosInf (Num b) = (if b = 0 then NaN else signed_inf (0 < b))"
| "js_mul NegInf (Num b) = (if b = 0 then NaN else signed_inf (b < 0))"
| "js_mul (Num a) PosInf = (if a = 0 then NaN else signed_inf (0 < a))"
| "js_mul (Num a) NegInf = (if a = 0 then NaN else signed_inf (a < 0))"
| "js_mul PosInf PosInf = PosInf"
| "js_mul PosInf NegInf = NegInf"
| "js_mul NegInf PosInf = NegInf"
| "js_mul NegInf NegInf = PosInf"

fun js_div :: "jsnum \<Rightarrow> jsnum \<Rightarrow> jsnum" where
  "js_div (Num a) (Num b) =
     (if b \<noteq> 0 then Num (a / b) else if a = 0 then NaN else signed_inf (0 < a))"
| "js_div NaN _ = NaN"
| "js_div _ NaN = NaN"
| "js_div (Num a) _ = Num 0"
| "js_div PosInf (Num b) = signed_inf (0 \<le> b)"
| "js_div NegInf (Num b) = signed_inf (b < 0)"
| "js_div _ _ = NaN"

fun js_abs :: "jsnum \<Rightarrow> jsnum" where
  "js_abs (Num a) = Num \<bar>a\<bar>"
| "js_abs NaN = NaN"
| "js_abs _ = PosInf"

text \<open>\<^verbatim>\<open>a < b\<close>; every comparison with \<^verbatim>\<open>NaN\<close> is false.\<close>

fun js_lt :: "jsnum \<Rightarrow> jsnum \<Rightarrow> bool" where
  "js_lt (Num a) (Num b) = (a < b)"
| "js_lt NaN _ = False"
| "js_lt _ NaN = False"
| "js_lt _ NegInf = False"
| "js_lt PosInf _ = False"
| "js_lt _ _ = True"

definition js_gt :: "jsnum \<Rightarrow> jsnum \<Rightarrow> bool" where
  "js_gt a b = js_lt b a"

text \<open>\<^verbatim>\<open>a >= b\<close>\<close>

definition js_ge :: "jsnum \<Rightarrow> jsnum \<Rightarrow> bool" where
  "js_ge a b = (a \<noteq> NaN \<and> b \<noteq> NaN \<and> \<not> js_lt a b)"

text \<open>\<^verbatim>\<open>Math.max(a, b)\<close> and \<^verbatim>\<open>Math.min(a, b)\<close>: \<^verbatim>\<open>NaN\<close> when an argument is.\<close>

definition Math_max :: "jsnum \<Rightarrow> jsnum \<Rightarrow> jsnum" where
  "Math_max a b = (if a = NaN \<or> b = NaN then NaN else if js_lt a b then b else a)"

definition Math_min :: "jsnum \<Rightarrow> jsnum \<Rightarrow> jsnum" where
  "Math_min a b = (if a = NaN \<or> b = NaN then NaN else if js_lt b a then b else a)"

text \<open>\<^verbatim>\<open>Math.round(x)\<close> rounds half up: \<open>\<lfloor>x + 1/2\<rfloor>\<close>.\<close>

fun Math_round :: "jsnum \<Rightarrow> jsnum" where
  "Math_round (Num a) = Num (of_int \<lfloor>a + 1 / 2\<rfloor>)"
| "Math_round x = x"

fun Math_sqrt :: "jsnum \<Rightarrow> jsnum" where
  "Math_sqrt (Num a) = (if 0 \<le> a then Num (sqrt a) else NaN)"
| "Math_sqrt PosInf = PosInf"
| "Math_sqrt _ = NaN"

fun Math_log :: "jsnum \<Rightarrow> jsnum" where
  "Math_log (Num a) = (if 0 < a then Num (ln a) else if a = 0 then NegInf else NaN)"
| "Math_log PosInf = PosInf"
| "Math_log _ = NaN"

text \<open>
  A JavaScript value as it arrives in a descriptor parsed from JSON. \<open>JObj i\<close> is the
  object or array with identity \<open>i\<close>; its contents are not modelled.
\<close>

datatype jsval = JUndefined | JNull | JBool bool | JNum jsnum | JStr string | JObj nat

fun truthy :: "jsval \<Rightarrow> bool" where
  "truthy JUndefined = False"
| "truthy JNull = False"
| "truthy (JBool b) = b"
| "truthy (JNum n) = (n \<noteq> NaN \<and> n \<noteq> Num 0)"
| "truthy (JStr s) = (s \<noteq> [])"
| "truthy (JObj _) = True"

text \<open>\<^verbatim>\<open>a || b\<close> and \<^verbatim>\<open>a === b\<close>\<close>

definition js_or :: "jsval \<Rightarrow> jsval \<Rightarrow> jsval" where
  "js_or a b = (if truthy a then a else b)"

definition strict_eq :: "jsval \<Rightarrow> jsval \<Rightarrow> bool" where
  "strict_eq a b = (a = b \<and> a \<noteq> JNum NaN)"

text \<open>
  What depends on the digits of a double or on the contents of an object is a parameter
  of the model: \<open>StringToNumber\<close> is the numeric value of a string, \<open>NumberToString\<close> the
  decimal text of a finite number, \<open>ObjectToString\<close> the text of an object or array, and
  \<open>BelowHalf x y\<close> says whether the product of \<open>x\<close> and \<open>y\<close>, when it is a half-integer
  in exact arithmetic, comes out below that half in double precision (as 300 \<sqdot> 1.005
  does, with the factor computed as \<^verbatim>\<open>1 + (1.1 - 1) * 0.05\<close>). Every theorem below holds
  for every choice of them.
\<close>

record host =
  StringToNumber :: "string \<Rightarrow> jsnum"
  NumberToString :: "real \<Rightarrow> string"
  ObjectToString :: "nat \<Rightarrow> string"
  BelowHalf :: "real \<Rightarrow> real \<Rightarrow> bool"

fun ToString :: "host \<Rightarrow> jsval \<Rightarrow> string" where
  "ToString h (JStr s) = s"
| "ToString h JUndefined = ''undefined''"
| "ToString h JNull = ''null''"
| "ToString h (JBool b) = (if b then ''true'' else ''false'')"
| "ToString h (JNum (Num r)) = NumberToString h r"
| "ToString h (JNum NaN) = ''NaN''"
| "ToString h (JNum PosInf) = ''Infinity''"
| "ToString h (JNum NegInf) = ''-Infinity''"
| "ToString h (JObj i) = ObjectToString h i"

fun ToNumber :: "host \<Rightarrow> jsval \<Rightarrow> jsnum" where
  "ToNumber h (JNum n) = n"
| "ToNumber h JUndefined = NaN"
| "ToNumber h JNull = Num 0"
| "ToNumber h (JBool b) = Num (if b then 1 else 0)"
| "ToNumber h (JStr s) = StringToNumber h s"
| "ToNumber h (JObj i) = StringToNumber h (ObjectToString h i)"

datatype error = TypeError

subsection \<open>parseInt\<close>

text \<open>
  \<^verbatim>\<open>parseInt(string, radix)\<close>: leading white space is skipped, a sign is read, with no
  radix or radix 16 a prefix \<^verbatim>\<open>0x\<close> selects radix 16, and the longest run of digits of
  the radix is the value; no digit gives \<^verbatim>\<open>NaN\<close>. Strings are lists of 8-bit characters.
\<close>

definition isWhite :: "char \<Rightarrow> bool" where
  "isWhite c = (c \<in> set [CHR 0x09, CHR 0x0A, CHR 0x0B, CHR 0x0C, CHR 0x0D, CHR 0x20, CHR 0xA0])"

definition digit_of_char :: "char \<Rightarrow> nat option" where
  "digit_of_char c =
     (let n = (of_char c :: nat) in
      if 48 \<le> n \<and> n \<le> 57 then Some (n - 48)
      else if 97 \<le> n \<and> n \<le> 122 then Some (n - 87)
      else if 65 \<le> n \<and> n \<le> 90 then Some (n - 55)
      else None)"

fun scan_digits :: "nat \<Rightarrow> string \<Rightarrow> nat list" where
  "scan_digits r [] = []"
| "scan_digits r (c # cs) =
     (case digit_of_char c of
        None \<Rightarrow> []
      | Some d \<Rightarrow> if d < r then d # scan_digits r cs else [])"

definition digits_value :: "nat \<Rightarrow> nat list \<Rightarrow> nat" where
  "digits_value r ds = foldl (\<lambda>acc d. acc * r + d) 0 ds"

definition parseInt_string :: "string \<Rightarrow> nat option \<Rightarrow> jsnum" where
  "parseInt_string s radix =
     (let s1 = dropWhile isWhite s;
          negative = (take 1 s1 = ''-'');
          s2 = (if take 1 s1 = ''-'' \<or> take 1 s1 = ''+'' then drop 1 s1 else s1);
          r0 = (case radix of None \<Rightarrow> 0 | Some r \<Rightarrow> r)
      in if r0 \<noteq> 0 \<and> (r0 < 2 \<or> 36 < r0) then NaN
         else
           let stripPrefix = (r0 = 0 \<or> r0 = 16);
               r1 = (if r0 = 0 then 10 else r0);
               prefixed = (stripPrefix \<and> (take 2 s2 = ''0x'' \<or> take 2 s2 = ''0X''));
               s3 = (if prefixed then drop 2 s2 else s2);
               r = (if prefixed then 16 else r1);
               ds = scan_digits r s3
           in if ds = [] then NaN
              else Num ((if negative then - 1 else 1) * real (digits_value r ds)))"

definition parseInt :: "host \<Rightarrow> jsval \<Rightarrow> nat option \<Rightarrow> jsnum" where
  "parseInt h v radix = parseInt_string (ToString h v) radix"

text \<open>\<^verbatim>\<open>parseInt(v) || 14\<close>: \<^verbatim>\<open>NaN\<close> and 0 are falsy.\<close>

definition num_or :: "jsnum \<Rightarrow> jsnum \<Rightarrow> jsnum" where
  "num_or a b = (if a = NaN \<or> a = Num 0 then b else a)"

section \<open>Descriptors and candidates\<close>

text \<open>
  A JavaScript object is an association list from property names to values; a property
  that is absent reads as \<^verbatim>\<open>undefined\<close>. \<open>None\<close> for an optional object stands for
  \<^verbatim>\<open>undefined\<close> (or \<^verbatim>\<open>null\<close>): reading a property of it raises a \<^verbatim>\<open>TypeError\<close>,
  reading it with \<^verbatim>\<open>?.\<close> gives \<^verbatim>\<open>undefined\<close>.
\<close>

type_synonym jsobject = "(string \<times> jsval) list"

definition js_get :: "jsobject \<Rightarrow> string \<Rightarrow> jsval" where
  "js_get obj k = (case map_of obj k of None \<Rightarrow> JUndefined | Some v \<Rightarrow> v)"

definition js_get_opt :: "jsobject option \<Rightarrow> string \<Rightarrow> jsval" where
  "js_get_opt obj k = (case obj of None \<Rightarrow> JUndefined | Some ob \<Rightarrow> js_get ob k)"

text \<open>\<^verbatim>\<open>Object.keys(obj).length\<close>\<close>

definition keys_length :: "jsobject \<Rightarrow> nat" where
  "keys_length obj = length (remdups (map fst obj))"

text \<open>\<^verbatim>\<open>{...obj, [k]: v}\<close>\<close>

definition with_prop :: "jsobject \<Rightarrow> string \<Rightarrow> jsval \<Rightarrow> jsobject" where
  "with_prop obj k v = AList.update k v obj"

text \<open>The element descriptor \<^verbatim>\<open>{id, type, properties, position}\<close>.\<close>

record element =
  el_id :: jsval
  el_type :: jsval
  properties :: "jsobject option"
  position :: "jsobject option"

text \<open>
  The candidate built by \<^verbatim>\<open>performBasicMapping\<close> and copied by every optimisation step.
  Its field \<^verbatim>\<open>element\<close> is the descriptor itself and is passed beside it.
\<close>

record component =
  c_id :: jsval
  c_type :: jsval
  componentType :: string
  c_name :: string
  baseParams :: jsobject
  quality :: jsnum
  iterations :: nat

definition bind :: "error + 'a \<Rightarrow> ('a \<Rightarrow> error + 'b) \<Rightarrow> error + 'b" where
  "bind m f = (case m of Inl e \<Rightarrow> Inl e | Inr x \<Rightarrow> f x)"

section \<open>Quality evaluator\<close>

definition size_axis :: "host \<Rightarrow> jsobject \<Rightarrow> jsobject \<Rightarrow> string \<Rightarrow> jsnum" where
  "size_axis h params pos k =
     (let axisError = js_div (js_abs (js_sub (ToNumber h (js_get params k)) (ToNumber h (js_get pos k))))
                             (ToNumber h (js_get pos k))
      in Math_max (Num 0) (js_sub (Num 1) (js_mul axisError (Num 2))))"

definition evaluateSizeMatch :: "host \<Rightarrow> jsobject \<Rightarrow> jsobject option \<Rightarrow> jsnum" where
  "evaluateSizeMatch h params position' =
     (case position' of
        None \<Rightarrow> Num 0
      | Some pos \<Rightarrow>
          let widthScore = size_axis h params pos ''width'';
              heightScore = size_axis h params pos ''height''
          in js_div (js_add widthScore heightScore) (Num 2))"

text \<open>
  \<^verbatim>\<open>calculateColorSimilarity\<close>: \<^verbatim>\<open>color1.replace('#', '')\<close> is a method of strings only,
  so any other value raises.
\<close>

definition channel :: "string \<Rightarrow> nat \<Rightarrow> jsnum" where
  "channel hex i = parseInt_string (take 2 (drop i hex)) (Some 16)"

definition square_diff :: "jsnum \<Rightarrow> jsnum \<Rightarrow> jsnum" where
  "square_diff a b = js_mul (js_sub a b) (js_sub a b)"

definition calculateColorSimilarity :: "jsval \<Rightarrow> jsval \<Rightarrow> error + jsnum" where
  "calculateColorSimilarity color1 color2 =
     (if strict_eq color1 color2 then Inr (Num 1)
      else case color1 of
        JStr s1 \<Rightarrow>
          (case color2 of
             JStr s2 \<Rightarrow>
               (let hex1 = remove1 (CHR ''#'') s1;
                    hex2 = remove1 (CHR ''#'') s2
                in if length hex1 = 6 \<and> length hex2 = 6 then
                     let distance = Math_sqrt (js_add (js_add
                             (square_diff (channel hex1 0) (channel hex2 0))
                             (square_diff (channel hex1 2) (channel hex2 2)))
                             (square_diff (channel hex1 4) (channel hex2 4)));
                         maxDistance = Math_sqrt (Num (255\<^sup>2 + 255\<^sup>2 + 255\<^sup>2))
                     in Inr (Math_max (Num 0) (js_sub (Num 1) (js_div distance maxDistance)))
                   else Inr (Num (1 / 2)))
           | _ \<Rightarrow> Inl TypeError)
      | _ \<Rightarrow> Inl TypeError)"

text \<open>
  One \<^verbatim>\<open>if (properties.k && params.k) { score += match * weight; checks++ }\<close> block of
  \<^verbatim>\<open>evaluateColorMatch\<close> and \<^verbatim>\<open>evaluateTypographyMatch\<close>, on the pair \<open>(score, checks)\<close>.
\<close>

definition color_check ::
  "jsobject \<Rightarrow> jsobject \<Rightarrow> string \<Rightarrow> real \<Rightarrow> jsnum \<times> nat \<Rightarrow> error + jsnum \<times> nat" where
  "color_check props params k weight sc =
     (if truthy (js_get props k) \<and> truthy (js_get params k) then
        bind (calculateColorSimilarity (js_get props k) (js_get params k))
          (\<lambda>m. Inr (js_add (fst sc) (js_mul m (Num weight)), snd sc + 1))
      else Inr sc)"

definition checked_score :: "jsnum \<times> nat \<Rightarrow> jsnum" where
  "checked_score sc = (if 0 < snd sc then fst sc else Num (1 / 2))"

definition evaluateColorMatch :: "jsobject \<Rightarrow> jsobject option \<Rightarrow> error + jsnum" where
  "evaluateColorMatch params properties' =
     (case properties' of
        None \<Rightarrow> Inl TypeError
      | Some props \<Rightarrow>
          bind (color_check props params ''color'' (1 / 2) (Num 0, 0)) (\<lambda>sc1.
          bind (color_check props params ''backgroundColor'' (3 / 10) sc1) (\<lambda>sc2.
          bind (color_check props params ''textColor'' (1 / 5) sc2) (\<lambda>sc3.
          Inr (checked_score sc3)))))"

definition fontSize_check :: "host \<Rightarrow> jsobject \<Rightarrow> jsobject \<Rightarrow> jsnum \<times> nat \<Rightarrow> jsnum \<times> nat" where
  "fontSize_check h props params sc =
     (if truthy (js_get props ''fontSize'') \<and> truthy (js_get params ''fontSize'') then
        let fontSize1 = num_or (parseInt h (js_get props ''fontSize'') None) (Num 14);
            fontSize2 = num_or (parseInt h (js_get params ''fontSize'') None) (Num 14);
            fontSizeError = js_div (js_abs (js_sub fontSize1 fontSize2)) fontSize1;
            fontSizeScore = Math_max (Num 0) (js_sub (Num 1) (js_mul fontSizeError (Num 3)))
        in (js_add (fst sc) (js_mul fontSizeScore (Num (2 / 5))), snd sc + 1)
      else sc)"

text \<open>
  One \<^verbatim>\<open>if (properties.k && params.k) { m = properties.k === params.k ? 1.0 : other; ... }\<close>
  block of \<^verbatim>\<open>evaluateTypographyMatch\<close> and \<^verbatim>\<open>evaluateContentMatch\<close>.
\<close>

definition equal_check ::
  "jsobject \<Rightarrow> jsobject \<Rightarrow> string \<Rightarrow> real \<Rightarrow> real \<Rightarrow> jsnum \<times> nat \<Rightarrow> jsnum \<times> nat" where
  "equal_check props params k other weight sc =
     (if truthy (js_get props k) \<and> truthy (js_get params k) then
        let m = (if strict_eq (js_get props k) (js_get params k) then Num 1 else Num other)
        in (js_add (fst sc) (js_mul m (Num weight)), snd sc + 1)
      else sc)"

definition evaluateTypographyMatch :: "host \<Rightarrow> jsobject \<Rightarrow> jsobject option \<Rightarrow> error + jsnum" where
  "evaluateTypographyMatch h params properties' =
     (case properties' of
        None \<Rightarrow> Inl TypeError
      | Some props \<Rightarrow>
          let sc1 = fontSize_check h props params (Num 0, 0);
              sc2 = equal_check props params ''fontWeight'' (1 / 2) (3 / 10) sc1
          in bind (color_check props params ''textColor'' (3 / 10) sc2) (\<lambda>sc3.
             Inr (checked_score sc3)))"

definition evaluateContentMatch :: "jsobject \<Rightarrow> jsobject option \<Rightarrow> error + jsnum" where
  "evaluateContentMatch params properties' =
     (case properties' of
        None \<Rightarrow> Inl TypeError
      | Some props \<Rightarrow>
          let sc1 = equal_check props params ''title'' (7 / 10) (2 / 5) (Num 0, 0);
              sc2 = equal_check props params ''text'' (7 / 10) (3 / 10) sc1;
              sc3 = equal_check props params ''value'' (7 / 10) (3 / 10) sc2
          in Inr (checked_score sc3))"

definition evaluateComponentQualityStrict :: "host \<Rightarrow> component \<Rightarrow> element \<Rightarrow> error + jsnum" where
  "evaluateComponentQualityStrict h cand el =
     (let params = baseParams cand;
          sizeScore = evaluateSizeMatch h params (position el);
          q1 = js_add (Num 0) (js_mul sizeScore (Num (2 / 5)))
      in bind (evaluateColorMatch params (properties el)) (\<lambda>colorScore.
         let q2 = js_add q1 (js_mul colorScore (Num (1 / 4)))
         in bind (evaluateTypographyMatch h params (properties el)) (\<lambda>typographyScore.
         let q3 = js_add q2 (js_mul typographyScore (Num (1 / 5)))
         in bind (evaluateContentMatch params (properties el)) (\<lambda>contentScore.
         let q4 = js_add q3 (js_mul contentScore (Num (3 / 20)))
         in Inr (Math_max (Num 0) (Math_min (Num 1) q4))))))"

section \<open>Configuration tables\<close>

text \<open>
  The tables of the constructor are object literals, read with \<^verbatim>\<open>table[key]\<close>: the key
  is converted to its text, and the read finds the table's own entry of that name, or
  else the member of that name that every object inherits from \<^verbatim>\<open>Object.prototype\<close>,
  or else \<^verbatim>\<open>undefined\<close>. The inherited members are functions, and \<^verbatim>\<open>__proto__\<close> is the
  prototype object itself: all of them are truthy, none has a method \<^verbatim>\<open>slice\<close> or
  \<^verbatim>\<open>map\<close>, and none can be iterated. \<open>member_text\<close> is the text of an inherited member
  in a template.
\<close>

datatype 'a slot = Own 'a | Inherited string | Absent

definition inherited_members :: "string list" where
  "inherited_members =
     [''constructor'', ''__defineGetter__'', ''__defineSetter__'', ''hasOwnProperty'',
      ''__lookupGetter__'', ''__lookupSetter__'', ''isPrototypeOf'', ''propertyIsEnumerable'',
      ''toString'', ''valueOf'', ''__proto__'', ''toLocaleString'']"

definition js_lookup :: "(string \<times> 'a) list \<Rightarrow> string \<Rightarrow> 'a slot" where
  "js_lookup table k =
     (case map_of table k of
        Some v \<Rightarrow> Own v
      | None \<Rightarrow> if k \<in> set inherited_members then Inherited k else Absent)"

definition member_text :: "string \<Rightarrow> string" where
  "member_text k =
     (if k = ''__proto__'' then ''[object Object]''
      else ''function '' @ (if k = ''constructor'' then ''Object'' else k) @ ''() { [native code] }'')"

definition typeMapping :: "(string \<times> string) list" where
  "typeMapping =
     [(''chart'', ''ChartComponent''), (''card'', ''CardComponent''),
      (''table'', ''TableComponent''), (''button'', ''ButtonComponent''),
      (''header'', ''HeaderComponent''), (''navigation'', ''NavigationComponent''),
      (''sidebar'', ''SidebarComponent''), (''form'', ''FormComponent''),
      (''input'', ''InputComponent''), (''text'', ''TextComponent''),
      (''image'', ''ImageComponent''), (''container'', ''ContainerComponent'')]"

definition optimizationParams :: "(string \<times> string list) list" where
  "optimizationParams =
     [(''chart'', [''width'', ''height'', ''color'', ''data'', ''config'']),
      (''card'', [''width'', ''height'', ''padding'', ''borderRadius'', ''backgroundColor'']),
      (''table'', [''width'', ''height'', ''columns'', ''data'', ''styling'']),
      (''button'', [''width'', ''height'', ''color'', ''backgroundColor'', ''borderRadius'']),
      (''text'', [''fontSize'', ''fontWeight'', ''color'', ''lineHeight'']),
      (''image'', [''width'', ''height'', ''objectFit'', ''borderRadius''])]"

definition qualityThreshold :: jsnum where
  "qualityThreshold = Num (95 / 100)"

definition sizeFactors :: "jsval list" where
  "sizeFactors = map (\<lambda>r. JNum (Num r)) [8 / 10, 9 / 10, 95 / 100, 105 / 100, 11 / 10, 12 / 10]"

definition paramVariations :: "(string \<times> jsval list) list" where
  "paramVariations =
     [(''width'', sizeFactors),
      (''height'', sizeFactors),
      (''color'', [JStr ''lighter'', JStr ''darker'', JStr ''complementary'', JStr ''analogous'']),
      (''fontSize'', sizeFactors)]"

section \<open>Complexity, key parameters and the iteration budget\<close>

text \<open>
  \<^verbatim>\<open>analyzeComplexity\<close>, in exact arithmetic: a complexity that is exactly 0.3 or 0.7
  here (seven properties and no area give 0.7) can lie just beside it in double
  precision.
\<close>

definition analyzeComplexity :: "host \<Rightarrow> element \<Rightarrow> jsnum" where
  "analyzeComplexity h el =
     (let c1 = js_add (Num 0)
                 (js_mul (Num (real (keys_length (case properties el of None \<Rightarrow> [] | Some ps \<Rightarrow> ps))))
                         (Num (1 / 10)));
          area = js_mul (ToNumber h (js_or (js_get_opt (position el) ''width'') (JNum (Num 0))))
                        (ToNumber h (js_or (js_get_opt (position el) ''height'') (JNum (Num 0))));
          c2 = js_add c1 (js_mul (Math_log (js_add area (Num 1))) (Num (5 / 100)));
          c3 = (if truthy (js_get_opt (properties el) ''data'') then js_add c2 (Num (3 / 10)) else c2);
          c4 = (if truthy (js_get_opt (properties el) ''columns'') then js_add c3 (Num (2 / 10)) else c3)
      in Math_min (Num 1) c4)"

text \<open>
  \<^verbatim>\<open>this.optimizationParams[element.type] || ['width', 'height']\<close>: a list of parameter
  names, or an inherited member when the type has the name of one.
\<close>

datatype params = ParamList "string list" | Member string

definition allParams :: "host \<Rightarrow> element \<Rightarrow> params" where
  "allParams h el =
     (case js_lookup optimizationParams (ToString h (el_type el)) of
        Own ps \<Rightarrow> ParamList ps
      | Inherited k \<Rightarrow> Member k
      | Absent \<Rightarrow> ParamList [''width'', ''height''])"

text \<open>
  \<^verbatim>\<open>selectKeyParams\<close>: \<^verbatim>\<open>allParams.slice(...)\<close> raises when \<^verbatim>\<open>allParams\<close> is an inherited
  member, which has no \<^verbatim>\<open>slice\<close>; the branch of the complex elements returns
  \<^verbatim>\<open>allParams\<close> as it is.
\<close>

definition selectKeyParams :: "host \<Rightarrow> element \<Rightarrow> error + params" where
  "selectKeyParams h el =
     (let complexity = analyzeComplexity h el in
      case allParams h el of
        ParamList ps \<Rightarrow>
          if js_lt complexity (Num (3 / 10)) then Inr (ParamList (take 2 ps))
          else if js_gt complexity (Num (7 / 10)) then Inr (ParamList ps)
          else Inr (ParamList (take ((length ps + 1) div 2) ps))
      | Member k \<Rightarrow>
          if js_lt complexity (Num (3 / 10)) then Inl TypeError
          else if js_gt complexity (Num (7 / 10)) then Inr (Member k)
          else Inl TypeError)"

definition calculateMaxIterations :: "host \<Rightarrow> element \<Rightarrow> nat" where
  "calculateMaxIterations h el =
     (let complexity = analyzeComplexity h el in
      if js_lt complexity (Num (3 / 10)) then 5
      else if js_lt complexity (Num (7 / 10)) then 8
      else 12)"

definition calculateVariationIntensity :: "nat \<Rightarrow> nat \<Rightarrow> nat \<Rightarrow> jsnum" where
  "calculateVariationIntensity iteration maxIterations stagnationCount =
     (let progress = js_div (Num (real iteration)) (Num (real maxIterations));
          baseIntensity = js_add (Num (5 / 100)) (js_mul progress (Num (15 / 100)));
          stagnationBoost = js_mul (Num (real stagnationCount)) (Num (5 / 100))
      in Math_min (Num (3 / 10)) (js_add baseIntensity stagnationBoost))"

section \<open>Variant generator\<close>

text \<open>
  The text of an integer in a radix up to 36, for \<^verbatim>\<open>toString(16)\<close> and for the
  template \<^verbatim>\<open>`${n}px`\<close>; both are applied to results of \<^verbatim>\<open>Math.round\<close> only. The
  exponent notation of the decimal text, from \<open>10\<^sup>2\<^sup>1\<close> on, is not modelled.
\<close>

definition digit_char :: "nat \<Rightarrow> char" where
  "digit_char d = ''0123456789abcdefghijklmnopqrstuvwxyz'' ! d"

fun radix_digits :: "nat \<Rightarrow> nat \<Rightarrow> string" where
  "radix_digits r n =
     (if r < 2 \<or> n < r then [digit_char n]
      else radix_digits r (n div r) @ [digit_char (n mod r)])"

definition integer_text :: "nat \<Rightarrow> real \<Rightarrow> string" where
  "integer_text r a = (if a < 0 then ''-'' else []) @ radix_digits r (nat \<lfloor>\<bar>a\<bar>\<rfloor>)"

fun rounded_text :: "nat \<Rightarrow> jsnum \<Rightarrow> string" where
  "rounded_text r (Num a) = integer_text r a"
| "rounded_text r NaN = ''NaN''"
| "rounded_text r PosInf = ''Infinity''"
| "rounded_text r NegInf = ''-Infinity''"

definition padStart2 :: "string \<Rightarrow> string" where
  "padStart2 s = replicate (2 - length s) (CHR ''0'') @ s"

definition hex2 :: "jsnum \<Rightarrow> string" where
  "hex2 n = padStart2 (rounded_text 16 n)"

text \<open>
  \<^verbatim>\<open>Math.round(value * factor)\<close>, as the variant generator applies it to sizes, font
  sizes and colour channels. The product is exact here, and rounded half up; where the
  exact product is a half-integer, the double product of the code can lie just below
  it and is then rounded down, which \<open>BelowHalf\<close> decides.
\<close>

fun rounded_product :: "host \<Rightarrow> jsnum \<Rightarrow> jsnum \<Rightarrow> jsnum" where
  "rounded_product h (Num x) (Num y) =
     (if x * y - of_int \<lfloor>x * y\<rfloor> = 1 / 2 \<and> BelowHalf h x y then Num (of_int \<lfloor>x * y\<rfloor>)
      else Math_round (Num (x * y)))"
| "rounded_product h a b = Math_round (js_mul a b)"

definition scaled_color :: "host \<Rightarrow> string \<Rightarrow> jsnum \<Rightarrow> (jsnum \<Rightarrow> jsnum) \<Rightarrow> string" where
  "scaled_color h hex factor bound =
     ''#'' @ hex2 (bound (rounded_product h (channel hex 0) factor))
          @ hex2 (bound (rounded_product h (channel hex 2) factor))
          @ hex2 (bound (rounded_product h (channel hex 4) factor))"

text \<open>\<^verbatim>\<open>baseColor.startsWith('#')\<close> is a method of strings only.\<close>

definition generateColorVariations :: "host \<Rightarrow> jsval \<Rightarrow> jsnum \<Rightarrow> error + jsval list" where
  "generateColorVariations h baseColor intensity =
     (case baseColor of
        JStr s \<Rightarrow>
          if take 1 s = ''#'' then
            let hex = drop 1 s;
                lightFactor = js_add (Num 1) (js_mul intensity (Num (3 / 10)));
                darkFactor = js_sub (Num 1) (js_mul intensity (Num (3 / 10)));
                lighter = scaled_color h hex lightFactor (Math_min (Num 255));
                darker = scaled_color h hex darkFactor (Math_max (Num 0))
            in Inr [baseColor, JStr lighter, JStr darker]
          else Inr [baseColor]
      | _ \<Rightarrow> Inl TypeError)"

definition generateParamVariations :: "host \<Rightarrow> string \<Rightarrow> jsval \<Rightarrow> jsnum \<Rightarrow> error + jsval list" where
  "generateParamVariations h param currentValue intensity =
     (case js_lookup paramVariations param of
        Absent \<Rightarrow> Inr [currentValue]
      | Inherited k \<Rightarrow> Inl TypeError
      | Own baseVariations \<Rightarrow>
          let adaptedVariations =
                map (\<lambda>factor. js_add (Num 1) (js_mul (js_sub (ToNumber h factor) (Num 1)) intensity))
                    baseVariations
          in if param = ''width'' \<or> param = ''height'' then
               Inr (map (\<lambda>factor. JNum (rounded_product h (ToNumber h currentValue) factor))
                        adaptedVariations)
             else if param = ''fontSize'' then
               let size = num_or (parseInt h currentValue None) (Num 14)
               in Inr (map (\<lambda>factor. JStr (rounded_text 10 (rounded_product h size factor) @ ''px''))
                           adaptedVariations)
             else if param = ''color'' \<or> param = ''backgroundColor'' then
               generateColorVariations h currentValue intensity
             else Inr [currentValue])"

text \<open>
  \<^verbatim>\<open>generateAdaptiveVariants\<close>: the loop \<^verbatim>\<open>for (const param of keyParams)\<close> over a list
  of names; an inherited member cannot be iterated.
\<close>

fun variants_of :: "host \<Rightarrow> component \<Rightarrow> string list \<Rightarrow> jsnum \<Rightarrow> error + component list" where
  "variants_of h cand [] intensity = Inr []"
| "variants_of h cand (param # keyParams) intensity =
     bind (generateParamVariations h param (js_get (baseParams cand) param) intensity) (\<lambda>variations.
     bind (variants_of h cand keyParams intensity) (\<lambda>variants.
     Inr (map (\<lambda>variation. cand\<lparr>baseParams := with_prop (baseParams cand) param variation\<rparr>) variations
          @ variants)))"

definition generateAdaptiveVariants :: "host \<Rightarrow> component \<Rightarrow> params \<Rightarrow> jsnum \<Rightarrow> error + component list" where
  "generateAdaptiveVariants h cand keyParams intensity =
     (case keyParams of
        ParamList ps \<Rightarrow> variants_of h cand ps intensity
      | Member k \<Rightarrow> Inl TypeError)"

section \<open>Basic mapping\<close>

text \<open>
  \<^verbatim>\<open>extractBaseParams\<close>; the fresh empty objects \<^verbatim>\<open>{}\<close> and \<^verbatim>\<open>[]\<close> of the defaults
  are written \<open>JObj 0\<close> (their identity is never compared).
\<close>

definition extractBaseParams :: "element \<Rightarrow> jsobject" where
  "extractBaseParams el =
     [(''width'', js_or (js_get_opt (position el) ''width'') (JNum (Num 300))),
      (''height'', js_or (js_get_opt (position el) ''height'') (JNum (Num 200))),
      (''color'', js_or (js_get_opt (properties el) ''color'') (JStr ''#1976d2'')),
      (''backgroundColor'', js_or (js_get_opt (properties el) ''backgroundColor'') (JStr ''#ffffff'')),
      (''textColor'', js_or (js_get_opt (properties el) ''textColor'') (JStr ''#000000'')),
      (''fontSize'', js_or (js_get_opt (properties el) ''fontSize'') (JStr ''14px'')),
      (''fontWeight'', js_or (js_get_opt (properties el) ''fontWeight'') (JStr ''400'')),
      (''borderRadius'', js_or (js_get_opt (properties el) ''borderRadius'') (JStr ''4px'')),
      (''border'', js_or (js_get_opt (properties el) ''border'') (JStr ''none'')),
      (''padding'', js_or (js_get_opt (properties el) ''padding'') (JStr ''16px'')),
      (''margin'', js_or (js_get_opt (properties el) ''margin'') (JStr ''8px'')),
      (''title'', js_or (js_get_opt (properties el) ''title'') (JStr [])),
      (''text'', js_or (js_get_opt (properties el) ''text'') (JStr [])),
      (''value'', js_or (js_get_opt (properties el) ''value'') (JStr [])),
      (''data'', js_or (js_get_opt (properties el) ''data'') (JObj 0)),
      (''config'', js_or (js_get_opt (properties el) ''config'') (JObj 0)),
      (''columns'', js_or (js_get_opt (properties el) ''columns'') (JObj 0))]"

definition typeMap :: "(string \<times> string) list" where
  "typeMap =
     [(''chart'', ''Chart''), (''card'', ''Card''), (''table'', ''Table''),
      (''button'', ''Button''), (''header'', ''Header''), (''navigation'', ''Navigation''),
      (''sidebar'', ''Sidebar''), (''form'', ''Form''), (''input'', ''Input''),
      (''text'', ''Text''), (''image'', ''Image''), (''container'', ''Container'')]"

definition alphanumeric :: "char \<Rightarrow> bool" where
  "alphanumeric c =
     (let n = (of_char c :: nat) in
      (48 \<le> n \<and> n \<le> 57) \<or> (65 \<le> n \<and> n \<le> 90) \<or> (97 \<le> n \<and> n \<le> 122))"

definition toUpperCase_char :: "char \<Rightarrow> char" where
  "toUpperCase_char c =
     (case map_of (zip ''abcdefghijklmnopqrstuvwxyz'' ''ABCDEFGHIJKLMNOPQRSTUVWXYZ'') c of
        Some u \<Rightarrow> u
      | None \<Rightarrow> c)"

text \<open>
  \<^verbatim>\<open>generateComponentName\<close>: \<^verbatim>\<open>element.id.replace(...)\<close> is a method of strings only.
  A type with the name of an inherited member puts the text of that member in front of
  the name.
\<close>

definition generateComponentName :: "host \<Rightarrow> element \<Rightarrow> error + string" where
  "generateComponentName h el =
     (let baseName = (case js_lookup typeMap (ToString h (el_type el)) of
                        Own n \<Rightarrow> n | Inherited k \<Rightarrow> member_text k | Absent \<Rightarrow> ''Component'')
      in case el_id el of
           JStr s \<Rightarrow>
             (let id' = filter alphanumeric s
              in Inr (baseName @ map toUpperCase_char (take 1 id') @ drop 1 id'))
         | _ \<Rightarrow> Inl TypeError)"

text \<open>
  \<^verbatim>\<open>performBasicMapping\<close>. The field \<open>componentType\<close> records the value by its text: for
  a type with the name of an inherited member the value is that member, whose text is
  none of the twelve component types, so the dispatch of \<^verbatim>\<open>generateComponentCode\<close> takes
  its default.
\<close>

definition performBasicMapping :: "host \<Rightarrow> element \<Rightarrow> error + component" where
  "performBasicMapping h el =
     (let componentType' = (case js_lookup typeMapping (ToString h (el_type el)) of
                              Own t \<Rightarrow> t | Inherited k \<Rightarrow> member_text k
                            | Absent \<Rightarrow> ''GenericComponent'');
          baseParams' = extractBaseParams el
      in bind (generateComponentName h el) (\<lambda>name.
         Inr \<lparr>c_id = el_id el, c_type = el_type el, componentType = componentType',
              c_name = name, baseParams = baseParams', quality = Num (3 / 10), iterations = 0\<rparr>))"

section \<open>Adaptive optimisation\<close>

text \<open>
  The variables of the inner loop \<^verbatim>\<open>for (const variant of variants)\<close>. The scan
  returns the candidate of the early \<^verbatim>\<open>return\<close> if a variant reached the threshold, the
  variables as the loop left them, and the qualities it evaluated, in order. The list of
  qualities is a history kept for the statements below; the code does not store it.
\<close>

record scan_state =
  bestQuality :: jsnum
  bestComponent :: component
  improved :: bool

fun scan_variants ::
  "host \<Rightarrow> element \<Rightarrow> nat \<Rightarrow> component list \<Rightarrow> scan_state
     \<Rightarrow> error + component option \<times> scan_state \<times> jsnum list" where
  "scan_variants h el iteration [] st = Inr (None, st, [])"
| "scan_variants h el iteration (variant # variants) st =
     (case evaluateComponentQualityStrict h variant el of
        Inl e \<Rightarrow> Inl e
      | Inr q \<Rightarrow>
          let st' = (if js_gt q (bestQuality st)
                     then \<lparr>bestQuality = q,
                           bestComponent = variant\<lparr>quality := q, iterations := iteration + 1\<rparr>,
                           improved = True\<rparr>
                     else st)
          in if js_ge q qualityThreshold
             then Inr (Some (variant\<lparr>quality := q, iterations := iteration + 1\<rparr>), st', [q])
             else (case scan_variants h el iteration variants st' of
                     Inl e \<Rightarrow> Inl e
                   | Inr (r, st'', qs) \<Rightarrow> Inr (r, st'', q # qs)))"

text \<open>
  How the outer loop ended: by the \<^verbatim>\<open>return\<close> at the threshold, by the \<^verbatim>\<open>break\<close>
  after three iterations without improvement, or by its condition
  \<^verbatim>\<open>iteration < maxIterations\<close>. A run is the way it ended, the candidate returned, and
  one history entry for every iteration entered: whether it improved the best, the best
  quality at its end and the qualities it evaluated.
\<close>

datatype exit = ThresholdReached | Stagnant | Exhausted

record entry =
  e_improved :: bool
  e_best :: jsnum
  e_evaluated :: "jsnum list"

type_synonym run = "exit \<times> component \<times> entry list"

definition later :: "entry \<Rightarrow> error + run \<Rightarrow> error + run" where
  "later e r = (case r of Inl err \<Rightarrow> Inl err | Inr (x, c, es) \<Rightarrow> Inr (x, c, e # es))"

function optimize ::
  "host \<Rightarrow> element \<Rightarrow> params \<Rightarrow> nat \<Rightarrow> nat \<Rightarrow> component \<Rightarrow> jsnum \<Rightarrow> component \<Rightarrow> nat
     \<Rightarrow> error + run" where
  "optimize h el keyParams maxIterations iteration currentComponent bestQuality' bestComponent'
       stagnationCount =
     (if iteration < maxIterations then
        let variationIntensity = calculateVariationIntensity iteration maxIterations stagnationCount
        in case generateAdaptiveVariants h currentComponent keyParams variationIntensity of
             Inl e \<Rightarrow> Inl e
           | Inr variants \<Rightarrow>
               (case scan_variants h el iteration variants
                       \<lparr>bestQuality = bestQuality', bestComponent = bestComponent', improved = False\<rparr> of
                  Inl e \<Rightarrow> Inl e
                | Inr (returned, st, qs) \<Rightarrow>
                    let this = \<lparr>e_improved = improved st, e_best = bestQuality st, e_evaluated = qs\<rparr>
                    in case returned of
                         Some c \<Rightarrow> Inr (ThresholdReached, c, [this])
                       | None \<Rightarrow>
                           if \<not> improved st then
                             if 3 \<le> stagnationCount + 1 then Inr (Stagnant, bestComponent st, [this])
                             else later this
                                    (optimize h el keyParams maxIterations (iteration + 1)
                                       (bestComponent st) (bestQuality st) (bestComponent st)
                                       (stagnationCount + 1))
                           else later this
                                  (optimize h el keyParams maxIterations (iteration + 1)
                                     (bestComponent st) (bestQuality st) (bestComponent st) 0))
      else Inr (Exhausted, bestComponent', []))"
  by pat_completeness auto
termination
  by (relation "measure (\<lambda>(h, el, keyParams, maxIterations, iteration, rest). maxIterations - iteration)")
     auto

declare optimize.simps [simp del]

definition performAdaptiveOptimization :: "host \<Rightarrow> component \<Rightarrow> element \<Rightarrow> error + run" where
  "performAdaptiveOptimization h baseComponent el =
     (case selectKeyParams h el of
        Inl e \<Rightarrow> Inl e
      | Inr keyParams \<Rightarrow>
          optimize h el keyParams (calculateMaxIterations h el) 0
            baseComponent (quality baseComponent) baseComponent 0)"

section \<open>Materialisation and the batch\<close>

text \<open>
  The emitted source text is not modelled: a builder either returns a text or raises.
  Every builder interpolates parameters into a template, which cannot raise; only
  \<^verbatim>\<open>generateGenericCode\<close> calls a method, \<^verbatim>\<open>element.type.toUpperCase()\<close>, which exists
  for strings only.
\<close>

definition generateGenericCode :: "element \<Rightarrow> error + unit" where
  "generateGenericCode el = (case el_type el of JStr t \<Rightarrow> Inr () | _ \<Rightarrow> Inl TypeError)"

definition generateComponentCode :: "component \<Rightarrow> element \<Rightarrow> error + unit" where
  "generateComponentCode cand el =
     (if componentType cand \<in> set (map snd typeMapping) then Inr ()
      else generateGenericCode el)"

record artifact =
  a_id :: jsval
  a_type :: jsval
  a_name :: string
  a_element :: "element option"
  a_quality :: jsnum
  a_iterations :: nat
  a_componentType :: string

definition generateFinalComponent :: "component \<Rightarrow> element \<Rightarrow> error + artifact" where
  "generateFinalComponent optimizedComponent el =
     bind (generateComponentCode optimizedComponent el) (\<lambda>componentContent.
     Inr \<lparr>a_id = c_id optimizedComponent, a_type = c_type optimizedComponent,
          a_name = c_name optimizedComponent, a_element = Some el,
          a_quality = quality optimizedComponent, a_iterations = iterations optimizedComponent,
          a_componentType = componentType optimizedComponent\<rparr>)"

definition generateFallbackComponent :: "host \<Rightarrow> element \<Rightarrow> error + artifact" where
  "generateFallbackComponent h el =
     bind (generateComponentName h el) (\<lambda>componentName.
     bind (generateGenericCode el) (\<lambda>componentContent.
     Inr \<lparr>a_id = el_id el, a_type = el_type el, a_name = componentName, a_element = Some el,
          a_quality = Num (1 / 10), a_iterations = 0, a_componentType = ''FallbackComponent''\<rparr>))"



text \<open>
  The body of the \<^verbatim>\<open>try\<close> for one element (\<^verbatim>\<open>optimizationConfig.enabled\<close> is true), and
  the \<^verbatim>\<open>try\<close>/\<^verbatim>\<open>catch\<close> around it. Writing the files (\<^verbatim>\<open>fs.mkdir\<close>, \<^verbatim>\<open>saveComponent\<close>,
  \<^verbatim>\<open>createIndexFile\<close>) is taken to succeed: a write that failed inside the \<^verbatim>\<open>try\<close>
  would come after the \<^verbatim>\<open>push\<close> of the component, and one that failed outside it would
  end the job.
\<close>

definition processElementTry :: "host \<Rightarrow> element \<Rightarrow> error + artifact" where
  "processElementTry h el =
     bind (performBasicMapping h el) (\<lambda>baseComponent.
     bind (performAdaptiveOptimization h baseComponent el) (\<lambda>(x, optimizedComponent, history).
     generateFinalComponent optimizedComponent el))"

definition processElement :: "host \<Rightarrow> element \<Rightarrow> error + artifact" where
  "processElement h el =
     (case processElementTry h el of
        Inr finalComponent \<Rightarrow> Inr finalComponent
      | Inl e \<Rightarrow> generateFallbackComponent h el)"



section \<open>Statements of the specification and example descriptors\<close>

text \<open>
  The variation intensity as the specification writes it:
  \<open>min(0.3, 0.05 + 0.15 \<sqdot> (iter / maxIterations) + 0.05 \<sqdot> stagnationCount)\<close>.
\<close>

definition spec_variationIntensity :: "nat \<Rightarrow> nat \<Rightarrow> nat \<Rightarrow> real" where
  "spec_variationIntensity iter maxIterations stagnationCount =
     min (3 / 10)
       (5 / 100 + 15 / 100 * (real iter / real maxIterations) + 5 / 100 * real stagnationCount)"

text \<open>A host for the examples; no example depends on one of its fields.\<close>

definition sample_host :: host where
  "sample_host =
     \<lparr>StringToNumber = (\<lambda>s. NaN), NumberToString = (\<lambda>r. ''0''),
      ObjectToString = (\<lambda>i. ''[object Object]''), BelowHalf = (\<lambda>x y. False)\<rparr>"

text \<open>The descriptor \<^verbatim>\<open>{position: {width: 300, height: 200}}\<close>, with nothing else.\<close>

definition descriptor_without_properties :: element where
  "descriptor_without_properties =
     \<lparr>el_id = JUndefined, el_type = JUndefined, properties = None,
      position = Some [(''width'', JNum (Num 300)), (''height'', JNum (Num 200))]\<rparr>"

text \<open>A descriptor of a type that has no entry in \<^verbatim>\<open>optimizationParams\<close>.\<close>

definition header_descriptor :: element where
  "header_descriptor =
     \<lparr>el_id = JStr ''h1'', el_type = JStr ''header'', properties = Some [],
      position = Some [(''width'', JNum (Num 300)), (''height'', JNum (Num 200))]\<rparr>"

text \<open>A descriptor whose type is the name of a member that every object inherits.\<close>

definition constructor_descriptor :: element where
  "constructor_descriptor =
     \<lparr>el_id = JStr ''e2'', el_type = JStr ''constructor'', properties = Some [],
      position = Some [(''width'', JNum (Num 300)), (''height'', JNum (Num 200))]\<rparr>"

text \<open>
  The descriptor \<^verbatim>\<open>{position: {width: 300, height: 200}, properties: {}}\<close>, with an empty
  \<^verbatim>\<open>properties\<close> object.
\<close>

definition descriptor_empty_properties :: element where
  "descriptor_empty_properties =
     \<lparr>el_id = JUndefined, el_type = JUndefined, properties = Some [],
      position = Some [(''width'', JNum (Num 300)), (''height'', JNum (Num 200))]\<rparr>"

text \<open>
  The candidate that matches a descriptor: its parameters are the descriptor's own,
  defaulted, with the base quality 0.3.
\<close>

definition matching_candidate :: "element \<Rightarrow> component" where
  "matching_candidate el =
     \<lparr>c_id = el_id el, c_type = el_type el, componentType = ''GenericComponent'',
      c_name = ''Component'', baseParams = extractBaseParams el,
      quality = Num (3 / 10), iterations = 0\<rparr>"

text \<open>
  A descriptor without position whose title is its only scored property, and the
  candidate \<^verbatim>\<open>performBasicMapping\<close> builds for it.
\<close>

definition titled_descriptor :: element where
  "titled_descriptor =
     \<lparr>el_id = JStr ''t1'', el_type = JStr ''panel'',
      properties = Some [(''title'', JStr ''A''), (''border'', JStr ''none''),
                         (''padding'', JStr ''4px''), (''margin'', JStr ''0px'')],
      position = None\<rparr>"

definition titled_base :: component where
  "titled_base =
     \<lparr>c_id = JStr ''t1'', c_type = JStr ''panel'', componentType = ''GenericComponent'',
      c_name = ''ComponentT1'', baseParams = extractBaseParams titled_descriptor,
      quality = Num (3 / 10), iterations = 0\<rparr>"










text \<open>The artifact of the descriptor whose type is \<^verbatim>\<open>constructor\<close>.\<close>

definition constructor_artifact :: artifact where
  "constructor_artifact =
     \<lparr>a_id = JStr ''e2'', a_type = JStr ''constructor'',
      a_name = ''function Object() { [native code] }E2'',
      a_element = Some constructor_descriptor, a_quality = Num (1 / 10), a_iterations = 0,
      a_componentType = ''FallbackComponent''\<rparr>"



text \<open>
  Three readings of a history: the number of the last iteration that improved the best
  (0 when none did); whether the counter of iterations without improvement, started at
  \<open>s\<close>, reaches 3 along the history; and the outline of a run, which keeps of every
  iteration whether it improved the best and the best quality at its end.
\<close>

definition outline :: "error + run \<Rightarrow> error + exit \<times> component \<times> (bool \<times> jsnum) list" where
  "outline r =
     (case r of
        Inl e \<Rightarrow> Inl e
      | Inr (x, c, hist) \<Rightarrow> Inr (x, c, map (\<lambda>e. (e_improved e, e_best e)) hist))"


definition last_improved :: "entry list \<Rightarrow> nat" where
  "last_improved hist = length (dropWhile (\<lambda>e. \<not> e_improved e) (rev hist))"


section \<open>Variation intensity\<close>

text \<open>
  Claim C7. For every iteration index below \<open>maxIterations\<close>, every positive
  \<open>maxIterations\<close> and every stagnation count, \<^verbatim>\<open>calculateVariationIntensity\<close> returns
  \<open>min(0.3, 0.05 + 0.15 \<sqdot> (iter / maxIterations) + 0.05 \<sqdot> stagnationCount)\<close>, and this
  value is greater than 0 and at most 0.3.
\<close>

theorem variation_intensity_formula:
  assumes "0 < maxIterations" and "iteration < maxIterations"
  shows "calculateVariationIntensity iteration maxIterations stagnationCount
           = Num (spec_variationIntensity iteration maxIterations stagnationCount)
         \<and> 0 < spec_variationIntensity iteration maxIterations stagnationCount
         \<and> spec_variationIntensity iteration maxIterations stagnationCount \<le> 3 / 10"
proof -
  let ?x = "5 / 100 + 15 / 100 * (real iteration / real maxIterations)
              + 5 / 100 * real stagnationCount"
  have pos: "0 < ?x"
    by (simp add: add_pos_nonneg)
  have eq: "calculateVariationIntensity iteration maxIterations stagnationCount
              = Num (min (3 / 10) ?x)"
    using assms by (simp add: calculateVariationIntensity_def Math_min_def min_def algebra_simps)
  have le: "min (3 / 10) ?x \<le> 3 / 10"
    by (rule min.cobounded1)
  have gt: "0 < min (3 / 10) ?x"
    using pos by (auto simp: min_def)
  show ?thesis
    unfolding spec_variationIntensity_def using eq le gt by blast
qed

theorem variation_intensity_formula_witness:
  "(0::nat) < 8 \<and> (2::nat) < 8
   \<and> calculateVariationIntensity 2 8 1 = Num (spec_variationIntensity 2 8 1)
   \<and> spec_variationIntensity 2 8 1 = 11 / 80"
  using variation_intensity_formula [of 8 2 1] by (simp add: spec_variationIntensity_def)

section \<open>Key parameters of a type without an entry\<close>

lemma ln_60001_bounds: "6 \<le> ln (60001 :: real)" "ln (60001 :: real) < 14"
proof -
  have "exp (6 :: real) = exp 1 ^ 6"
    using exp_of_nat_mult [of 6 "1 :: real"] by simp
  also have "\<dots> \<le> 3 ^ 6"
    by (rule power_mono) (use exp_le in auto)
  finally have "exp (6 :: real) \<le> 60001" by simp
  then show "6 \<le> ln (60001 :: real)"
    by (simp add: ln_ge_iff)
  have "(5 :: real) \<le> exp 2"
    using exp_lower_Taylor_quadratic [of "2 :: real"] by simp
  then have "(5 :: real) ^ 7 \<le> exp 2 ^ 7"
    by (rule power_mono) simp
  also have "\<dots> = exp (14 :: real)"
    using exp_of_nat_mult [of 7 "2 :: real"] by simp
  finally have "(60001 :: real) < exp 14" by simp
  then show "ln (60001 :: real) < 14"
    using ln_less_cancel_iff [of 60001 "exp (14 :: real)"] by simp
qed

text \<open>
  Claim C10, as amended. For every element whose type is not one of chart, card, table,
  button, text and image, and is not the name of a member that every object inherits
  (\<^verbatim>\<open>constructor\<close>, \<^verbatim>\<open>toString\<close>, \<^verbatim>\<open>valueOf\<close>, \<^verbatim>\<open>hasOwnProperty\<close>, \<^verbatim>\<open>__proto__\<close>, ...), the
  list of parameters read from \<^verbatim>\<open>optimizationParams\<close> is the default
  \<^verbatim>\<open>['width', 'height']\<close>, before the truncation by complexity; so the key parameters of
  the search are a non-empty part of width and height.
\<close>

theorem unknown_type_key_params:
  assumes "ToString h (el_type el)
             \<notin> set [''chart'', ''card'', ''table'', ''button'', ''text'', ''image'']"
    and "ToString h (el_type el) \<notin> set inherited_members"
  shows "allParams h el = ParamList [''width'', ''height'']
         \<and> (\<exists>ps. selectKeyParams h el = Inr (ParamList ps)
                  \<and> set ps \<subseteq> {''width'', ''height''} \<and> ps \<noteq> [])"
proof -
  have "map_of optimizationParams (ToString h (el_type el)) = None"
    using assms(1) by (simp add: optimizationParams_def)
  then have a: "allParams h el = ParamList [''width'', ''height'']"
    using assms(2) by (simp add: allParams_def js_lookup_def)
  then show ?thesis
    by (simp add: selectKeyParams_def Let_def)
qed

theorem unknown_type_key_params_witness:
  "ToString sample_host (el_type header_descriptor)
     \<notin> set [''chart'', ''card'', ''table'', ''button'', ''text'', ''image'']
   \<and> ToString sample_host (el_type header_descriptor) \<notin> set inherited_members
   \<and> allParams sample_host header_descriptor = ParamList [''width'', ''height'']
   \<and> (\<exists>ps. selectKeyParams sample_host header_descriptor = Inr (ParamList ps) \<and> ps \<noteq> [])"
proof -
  have t: "ToString sample_host (el_type header_descriptor)
             \<notin> set [''chart'', ''card'', ''table'', ''button'', ''text'', ''image'']"
    and i: "ToString sample_host (el_type header_descriptor) \<notin> set inherited_members"
    by (simp_all add: header_descriptor_def inherited_members_def)
  show ?thesis
    using t i unknown_type_key_params [OF t i] by blast
qed

text \<open>
  The claim as stated, for every type outside the six, fails for the type
  \<^verbatim>\<open>constructor\<close>: \<^verbatim>\<open>this.optimizationParams['constructor']\<close> is the function \<^verbatim>\<open>Object\<close>
  that the table inherits, it is truthy, so the default is not taken, and
  \<^verbatim>\<open>allParams.slice\<close> is no function.
\<close>

theorem inherited_type_key_params_raise:
  "allParams sample_host constructor_descriptor = Member ''constructor''
   \<and> selectKeyParams sample_host constructor_descriptor = Inl TypeError"
proof -
  have a: "allParams sample_host constructor_descriptor = Member ''constructor''"
    by (simp add: allParams_def js_lookup_def optimizationParams_def inherited_members_def
          constructor_descriptor_def)
  have c: "analyzeComplexity sample_host constructor_descriptor = Num (ln 60001 * (5 / 100))"
    using ln_60001_bounds
    by (simp add: analyzeComplexity_def constructor_descriptor_def keys_length_def
          js_get_opt_def js_or_def js_get_def Math_min_def)
  show ?thesis
    using ln_60001_bounds by (simp add: selectKeyParams_def a c js_gt_def Let_def)
qed

section \<open>The evaluator on a descriptor without properties\<close>

text \<open>
  Claim C2 says that the quality evaluator returns a score for every descriptor, also
  for one without a \<^verbatim>\<open>properties\<close> object. On the descriptor
  \<^verbatim>\<open>{position: {width: 300, height: 200}}\<close> the evaluator raises a \<^verbatim>\<open>TypeError\<close>,
  whatever the candidate: \<^verbatim>\<open>evaluateColorMatch\<close> reads \<^verbatim>\<open>properties.color\<close> of
  \<^verbatim>\<open>undefined\<close>.
\<close>

theorem evaluator_raises_without_properties:
  "evaluateComponentQualityStrict h cand descriptor_without_properties = Inl TypeError"
  by (simp add: evaluateComponentQualityStrict_def evaluateColorMatch_def bind_def
        descriptor_without_properties_def)

text \<open>
  A colour of six characters that are no hexadecimal digits is not scored 0.5 either:
  the channels parse to \<^verbatim>\<open>NaN\<close>, and so does the similarity.
\<close>

lemma similarity_of_non_hex_digits:
  "calculateColorSimilarity (JStr ''#gggggg'') (JStr ''#000000'') = Inr NaN"
  by (simp add: calculateColorSimilarity_def strict_eq_def channel_def parseInt_string_def
        digit_of_char_def isWhite_def square_diff_def js_sub_def Math_max_def)

section \<open>Invariants of the optimisation loop\<close>

lemma clamp_range:
  "Math_max (Num 0) (Math_min (Num 1) x) = NaN
   \<or> (\<exists>r. Math_max (Num 0) (Math_min (Num 1) x) = Num r \<and> 0 \<le> r \<and> r \<le> 1)"
  by (cases x) (auto simp: Math_max_def Math_min_def)

lemma evaluate_range:
  assumes "evaluateComponentQualityStrict h cand el = Inr q"
  shows "q = NaN \<or> (\<exists>r. q = Num r \<and> 0 \<le> r \<and> r \<le> 1)"
  using assms clamp_range
  by (auto simp: evaluateComponentQualityStrict_def bind_def Let_def split: sum.splits)

lemma js_gt_Num_iff:
  assumes "q = NaN \<or> (\<exists>r. q = Num r \<and> 0 \<le> r \<and> r \<le> 1)"
  shows "js_gt q (Num b) \<longleftrightarrow> (\<exists>r. q = Num r \<and> b < r)"
  using assms by (auto simp: js_gt_def)

lemma js_ge_threshold_iff:
  assumes "q = NaN \<or> (\<exists>r. q = Num r \<and> 0 \<le> r \<and> r \<le> 1)"
  shows "js_ge q qualityThreshold \<longleftrightarrow> (\<exists>r. q = Num r \<and> 95 / 100 \<le> r)"
  using assms by (auto simp: js_ge_def qualityThreshold_def)

lemma scan_variants_props:
  assumes "scan_variants h el it vs st = Inr (r, st', qs)"
    and "bestQuality st = Num b" and "quality (bestComponent st) = Num b"
    and "b < 95 / 100" and "b \<le> 1"
  shows "\<exists>b'. bestQuality st' = Num b' \<and> quality (bestComponent st') = Num b' \<and> b \<le> b' \<and> b' \<le> 1
           \<and> (\<forall>x. Num x \<in> set qs \<longrightarrow> x \<le> b')
           \<and> (b' = b \<or> Num b' \<in> set qs)
           \<and> (improved st' \<longleftrightarrow> improved st \<or> b < b')
           \<and> (\<not> b < b' \<longrightarrow> st' = st)
           \<and> (b < b' \<longrightarrow> iterations (bestComponent st') = it + 1)
           \<and> (r = None \<longrightarrow> b' < 95 / 100)
           \<and> (\<forall>c. r = Some c \<longrightarrow> c = bestComponent st' \<and> 95 / 100 \<le> b' \<and> b < b')"
  using assms
proof (induction vs arbitrary: st r st' qs b)
  case Nil
  then show ?case by auto
next
  case (Cons v vs)
  from Cons.prems(1) obtain q where q: "evaluateComponentQualityStrict h v el = Inr q"
    by (auto split: sum.splits)
  note rng = evaluate_range [OF q]
  show ?case
  proof (cases "js_ge q qualityThreshold")
    case True
    then obtain x where x: "q = Num x" "95 / 100 \<le> x" "x \<le> 1"
      using rng js_ge_threshold_iff [OF rng] by auto
    have gt: "js_gt q (bestQuality st)"
      using x Cons.prems by (simp add: js_gt_def)
    from Cons.prems(1) q True gt
    have "r = Some (v\<lparr>quality := q, iterations := it + 1\<rparr>)"
      and "st' = \<lparr>bestQuality = q, bestComponent = v\<lparr>quality := q, iterations := it + 1\<rparr>, improved = True\<rparr>"
      and "qs = [q]"
      by (auto simp: Let_def)
    then show ?thesis
      using x Cons.prems by auto
  next
    case False
    let ?st1 = "if js_gt q (bestQuality st)
                then \<lparr>bestQuality = q, bestComponent = v\<lparr>quality := q, iterations := it + 1\<rparr>, improved = True\<rparr>
                else st"
    from Cons.prems(1) q False obtain qs' where
      rec: "scan_variants h el it vs ?st1 = Inr (r, st', qs')" and qs: "qs = q # qs'"
      by (auto simp: Let_def split: sum.splits if_splits)
    show ?thesis
    proof (cases "js_gt q (bestQuality st)")
      case True
      then obtain x where x: "q = Num x" "b < x" "x \<le> 1"
        using rng js_gt_Num_iff [OF rng, of b] Cons.prems(2) by auto
      have x95: "x < 95 / 100"
        using False x js_ge_threshold_iff [OF rng] by auto
      have st1: "?st1 = \<lparr>bestQuality = q, bestComponent = v\<lparr>quality := q, iterations := it + 1\<rparr>, improved = True\<rparr>"
        using True by simp
      have ih: "\<exists>b'. bestQuality st' = Num b' \<and> quality (bestComponent st') = Num b' \<and> x \<le> b' \<and> b' \<le> 1
           \<and> (\<forall>y. Num y \<in> set qs' \<longrightarrow> y \<le> b')
           \<and> (b' = x \<or> Num b' \<in> set qs')
           \<and> (improved st' \<longleftrightarrow> improved ?st1 \<or> x < b')
           \<and> (\<not> x < b' \<longrightarrow> st' = ?st1)
           \<and> (x < b' \<longrightarrow> iterations (bestComponent st') = it + 1)
           \<and> (r = None \<longrightarrow> b' < 95 / 100)
           \<and> (\<forall>c. r = Some c \<longrightarrow> c = bestComponent st' \<and> 95 / 100 \<le> b' \<and> x < b')"
        by (rule Cons.IH [OF rec]) (use st1 x x95 in auto)
      then obtain b' where b': "bestQuality st' = Num b'" "quality (bestComponent st') = Num b'" "x \<le> b'" "b' \<le> 1"
           "\<forall>y. Num y \<in> set qs' \<longrightarrow> y \<le> b'"
           "b' = x \<or> Num b' \<in> set qs'"
           "improved st' \<longleftrightarrow> improved ?st1 \<or> x < b'"
           "\<not> x < b' \<longrightarrow> st' = ?st1"
           "x < b' \<longrightarrow> iterations (bestComponent st') = it + 1"
           "r = None \<longrightarrow> b' < 95 / 100"
           "\<forall>c. r = Some c \<longrightarrow> c = bestComponent st' \<and> 95 / 100 \<le> b' \<and> x < b'"
        by blast
      have it1: "iterations (bestComponent st') = it + 1"
        using b'(8,9) st1 by (cases "x < b'") auto
      show ?thesis
        apply (rule exI [of _ b'])
        using b' x qs st1 it1 by auto
    next
      case nogt: False
      then have st1: "?st1 = st" by simp
      have qle: "\<forall>x. q = Num x \<longrightarrow> x \<le> b"
        using nogt rng js_gt_Num_iff [OF rng, of b] Cons.prems(2) by auto
      have ih: "\<exists>b'. bestQuality st' = Num b' \<and> quality (bestComponent st') = Num b' \<and> b \<le> b' \<and> b' \<le> 1
           \<and> (\<forall>x. Num x \<in> set qs' \<longrightarrow> x \<le> b')
           \<and> (b' = b \<or> Num b' \<in> set qs')
           \<and> (improved st' \<longleftrightarrow> improved st \<or> b < b')
           \<and> (\<not> b < b' \<longrightarrow> st' = st)
           \<and> (b < b' \<longrightarrow> iterations (bestComponent st') = it + 1)
           \<and> (r = None \<longrightarrow> b' < 95 / 100)
           \<and> (\<forall>c. r = Some c \<longrightarrow> c = bestComponent st' \<and> 95 / 100 \<le> b' \<and> b < b')"
        using Cons.IH [of st r st' qs' b] rec st1 Cons.prems by simp
      then show ?thesis
        using qs qle by fastforce
    qed
  qed
qed


lemma optimize_cases [consumes 1, case_names exhausted stop continue]:
  assumes "optimize h el kp mx it cur bq bc stag = Inr (x, c, hist)"
  obtains
    (exhausted) "\<not> it < mx" "x = Exhausted" "c = bc" "hist = []"
  | (stop) variants ret st qs where "it < mx"
      "generateAdaptiveVariants h cur kp (calculateVariationIntensity it mx stag) = Inr variants"
      "scan_variants h el it variants \<lparr>bestQuality = bq, bestComponent = bc, improved = False\<rparr>
         = Inr (ret, st, qs)"
      "hist = [\<lparr>e_improved = improved st, e_best = bestQuality st, e_evaluated = qs\<rparr>]"
      "(ret = Some c \<and> x = ThresholdReached)
       \<or> (ret = None \<and> \<not> improved st \<and> 3 \<le> stag + 1 \<and> x = Stagnant \<and> c = bestComponent st)"
  | (continue) variants st qs hist' where "it < mx"
      "generateAdaptiveVariants h cur kp (calculateVariationIntensity it mx stag) = Inr variants"
      "scan_variants h el it variants \<lparr>bestQuality = bq, bestComponent = bc, improved = False\<rparr>
         = Inr (None, st, qs)"
      "hist = \<lparr>e_improved = improved st, e_best = bestQuality st, e_evaluated = qs\<rparr> # hist'"
      "improved st \<or> stag + 1 < 3"
      "optimize h el kp mx (it + 1) (bestComponent st) (bestQuality st) (bestComponent st)
         (if improved st then 0 else stag + 1) = Inr (x, c, hist')"
  using assms
  by (subst (asm) optimize.simps)
     (auto simp: Let_def later_def split: if_splits sum.splits option.splits prod.splits)

lemma optimize_quality:
  assumes "optimize h el kp mx it cur bq bc stag = Inr (x, c, hist)"
    and "bq = Num b" and "quality bc = Num b" and "b < 95 / 100" and "b \<le> 1"
  shows "\<exists>q. quality c = Num q \<and> b \<le> q \<and> q \<le> 1
           \<and> (\<forall>e\<in>set hist. \<exists>y. e_best e = Num y \<and> b \<le> y \<and> y \<le> q)
           \<and> sorted_wrt (\<lambda>u v. js_ge v u) (map e_best hist)
           \<and> (\<forall>e\<in>set hist. \<forall>y. Num y \<in> set (e_evaluated e) \<longrightarrow> y \<le> q)
           \<and> (q = b \<or> (\<exists>e\<in>set hist. Num q \<in> set (e_evaluated e)))
           \<and> (hist \<noteq> [] \<longrightarrow> e_best (last hist) = Num q)
           \<and> (x = ThresholdReached \<longleftrightarrow> 95 / 100 \<le> q)"
  using assms
proof (induction "mx - it" arbitrary: it cur bq bc stag x c hist b)
  case 0
  from "0.prems"(1) show ?case
  proof (cases rule: optimize_cases)
    case exhausted
    then show ?thesis using "0.prems" by auto
  next
    case (stop variants ret st qs)
    then show ?thesis using "0.hyps" by simp
  next
    case (continue variants st qs hist')
    then show ?thesis using "0.hyps" by simp
  qed
next
  case (Suc n)
  from Suc.prems(1) show ?case
  proof (cases rule: optimize_cases)
    case exhausted
    then show ?thesis using Suc.hyps by simp
  next
    case (stop variants ret st qs)
    from scan_variants_props [OF stop(3), of b] Suc.prems
    obtain b' where b': "bestQuality st = Num b'" "quality (bestComponent st) = Num b'"
        "b \<le> b'" "b' \<le> 1" "\<forall>x. Num x \<in> set qs \<longrightarrow> x \<le> b'" "b' = b \<or> Num b' \<in> set qs"
        "improved st \<longleftrightarrow> b < b'" "ret = None \<longrightarrow> b' < 95 / 100"
        "\<forall>c. ret = Some c \<longrightarrow> c = bestComponent st \<and> 95 / 100 \<le> b' \<and> b < b'"
      by auto
    show ?thesis
      apply (rule exI [of _ b'])
      using stop(4,5) b' by auto
  next
    case (continue variants st qs hist')
    from scan_variants_props [OF continue(3), of b] Suc.prems
    obtain b' where b': "bestQuality st = Num b'" "quality (bestComponent st) = Num b'"
        "b \<le> b'" "b' \<le> 1" "\<forall>x. Num x \<in> set qs \<longrightarrow> x \<le> b'" "b' = b \<or> Num b' \<in> set qs"
        "improved st \<longleftrightarrow> b < b'" "b' < 95 / 100"
      by auto
    have n: "n = mx - (it + 1)" using Suc.hyps(2) by simp
    from Suc.hyps(1) [OF n continue(6) b'(1) b'(2) b'(8) b'(4)]
    obtain q where q: "quality c = Num q" "b' \<le> q" "q \<le> 1"
        "\<forall>e\<in>set hist'. \<exists>y. e_best e = Num y \<and> b' \<le> y \<and> y \<le> q"
        "sorted_wrt (\<lambda>u v. js_ge v u) (map e_best hist')"
        "\<forall>e\<in>set hist'. \<forall>y. Num y \<in> set (e_evaluated e) \<longrightarrow> y \<le> q"
        "q = b' \<or> (\<exists>e\<in>set hist'. Num q \<in> set (e_evaluated e))"
        "hist' \<noteq> [] \<longrightarrow> e_best (last hist') = Num q"
        "x = ThresholdReached \<longleftrightarrow> 95 / 100 \<le> q"
      by blast
    have ge: "\<forall>e\<in>set hist'. js_ge (e_best e) (Num b')"
      using q(4) by (auto simp: js_ge_def)
    have last: "hist' = [] \<longrightarrow> q = b'"
      using q(7) by auto
    show ?thesis
      apply (rule exI [of _ q])
      using continue(4) b' q ge last by (auto simp: js_ge_def)
  qed
qed


lemma last_improved_Cons:
  "last_improved (e # es) =
     (if \<exists>x\<in>set es. e_improved x then 1 + last_improved es
      else if e_improved e then 1 else 0)"
  by (auto simp: last_improved_def dropWhile_append)

lemma last_improved_Nil: "last_improved [] = 0"
  by (simp add: last_improved_def)


lemma optimize_step [consumes 5, case_names exhausted threshold stagnant improved unimproved]:
  assumes "optimize h el kp mx it cur bq bc stag = Inr (x, c, hist)"
    and "bq = Num b" and "quality bc = Num b" and "b < 95 / 100" and "b \<le> 1"
  obtains
    (exhausted) "mx \<le> it" "x = Exhausted" "c = bc" "hist = []"
  | (threshold) e where "it < mx" "hist = [e]" "x = ThresholdReached" "e_improved e"
      "iterations c = it + 1" "\<exists>y. e_best e = Num y \<and> b < y"
  | (stagnant) e where "it < mx" "hist = [e]" "x = Stagnant" "\<not> e_improved e" "c = bc"
      "2 \<le> stag"
  | (improved) e hist' bc' b' where "it < mx" "hist = e # hist'" "e_improved e"
      "optimize h el kp mx (it + 1) bc' (Num b') bc' 0 = Inr (x, c, hist')"
      "quality bc' = Num b'" "b' < 95 / 100" "b' \<le> 1" "iterations bc' = it + 1"
      "e_best e = Num b'" "b < b'"
  | (unimproved) e hist' where "it < mx" "hist = e # hist'" "\<not> e_improved e" "stag < 2"
      "optimize h el kp mx (it + 1) bc (Num b) bc (stag + 1) = Inr (x, c, hist')"
  using assms(1)
proof (cases rule: optimize_cases)
  case exhausted
  then show ?thesis using that(1) by simp
next
  case (stop variants ret st qs)
  from scan_variants_props [OF stop(3), of b] assms
  obtain b' where b': "bestQuality st = Num b'" "improved st \<longleftrightarrow> b < b'"
      "\<not> b < b' \<longrightarrow> st = \<lparr>bestQuality = bq, bestComponent = bc, improved = False\<rparr>"
      "b < b' \<longrightarrow> iterations (bestComponent st) = it + 1"
      "\<forall>c. ret = Some c \<longrightarrow> c = bestComponent st \<and> b < b'"
    by auto
  from stop(5) show ?thesis
  proof
    assume "ret = Some c \<and> x = ThresholdReached"
    then show ?thesis
      using that(2) [OF stop(1) stop(4)] b' by auto
  next
    assume "ret = None \<and> \<not> improved st \<and> 3 \<le> stag + 1 \<and> x = Stagnant \<and> c = bestComponent st"
    then show ?thesis
      using that(3) [OF stop(1) stop(4)] b' by auto
  qed
next
  case (continue variants st qs hist')
  from scan_variants_props [OF continue(3), of b] assms
  obtain b' where b': "bestQuality st = Num b'" "quality (bestComponent st) = Num b'"
      "b' \<le> 1" "improved st \<longleftrightarrow> b < b'" "b' < 95 / 100"
      "\<not> b < b' \<longrightarrow> st = \<lparr>bestQuality = bq, bestComponent = bc, improved = False\<rparr>"
      "b < b' \<longrightarrow> iterations (bestComponent st) = it + 1"
    by auto
  show ?thesis
  proof (cases "improved st")
    case True
    then show ?thesis
      using that(4) [OF continue(1) continue(4), of "bestComponent st" b'] continue(6) b'
      by auto
  next
    case False
    then have "st = \<lparr>bestQuality = bq, bestComponent = bc, improved = False\<rparr>"
      using b' by auto
    then show ?thesis
      using that(5) [OF continue(1) continue(4)] continue(5,6) False assms(2) by auto
  qed
qed


lemma optimize_reported_iterations:
  assumes "optimize h el kp mx it cur bq bc stag = Inr (x, c, hist)"
    and "bq = Num b" and "quality bc = Num b" and "b < 95 / 100" and "b \<le> 1"
  shows "iterations c = (if \<exists>e\<in>set hist. e_improved e then it + last_improved hist
                          else iterations bc)
         \<and> ((\<forall>e\<in>set hist. \<not> e_improved e) \<longrightarrow> c = bc)"
  using assms
proof (induction "mx - it" arbitrary: it cur bq bc stag hist b)
  case 0
  from "0.prems"(1-5) show ?case
    by (cases rule: optimize_step) (use "0.hyps" in auto)
next
  case (Suc n)
  have n: "n = mx - (it + 1)" using Suc.hyps(2) by simp
  from Suc.prems(1-5) show ?case
  proof (cases rule: optimize_step)
    case (improved e hist' bc' b')
    from Suc.hyps(1) [OF n improved(4) refl improved(5,6,7)]
    show ?thesis using improved(2,3,8) by (simp add: last_improved_Cons)
  next
    case (unimproved e hist')
    from Suc.hyps(1) [OF n unimproved(5) refl] Suc.prems(3,4,5)
    show ?thesis using unimproved(2,3) by (simp add: last_improved_Cons)
  qed (auto simp: last_improved_Cons last_improved_Nil)
qed


section \<open>Variant generator: the variations of one parameter\<close>

lemma error_is_TypeError: "(e :: error) = TypeError"
  by (cases e) simp

lemma param_variations_returned_nonempty:
  assumes "generateParamVariations h param currentValue intensity = Inr vs"
  shows "vs \<noteq> []"
  using assms
  by (auto simp: generateParamVariations_def generateColorVariations_def paramVariations_def
        js_lookup_def sizeFactors_def Let_def split: option.splits if_splits jsval.splits)




lemma adaptive_variants_nonempty:
  assumes "generateAdaptiveVariants h cand (ParamList kp) i = Inr vs" and "kp \<noteq> []"
  shows "vs \<noteq> []"
proof (cases kp)
  case Nil
  with assms show ?thesis by simp
next
  case (Cons p ps)
  with assms(1) obtain vars where "generateParamVariations h p (js_get (baseParams cand) p) i = Inr vars"
      and "\<exists>rest. vs = map (\<lambda>variation. cand\<lparr>baseParams := with_prop (baseParams cand) p variation\<rparr>) vars @ rest"
    by (auto simp: generateAdaptiveVariants_def bind_def split: sum.splits)
  then show ?thesis
    using param_variations_returned_nonempty by fastforce
qed

lemma allParams_nonempty:
  assumes "allParams h el = ParamList ps"
  shows "2 \<le> length ps"
proof -
  have "\<forall>ps \<in> set (map snd optimizationParams). 2 \<le> length ps"
    by (simp add: optimizationParams_def)
  then show ?thesis
    using assms
    by (auto simp: allParams_def js_lookup_def split: option.splits if_splits dest!: map_of_SomeD)
qed

lemma selectKeyParams_nonempty:
  assumes "selectKeyParams h el = Inr (ParamList ps)"
  shows "ps \<noteq> []"
proof (cases "allParams h el")
  case (ParamList qs)
  from allParams_nonempty [OF this] obtain a b rest where "qs = a # b # rest"
    by (cases qs; cases "tl qs") auto
  with assms ParamList show ?thesis
    by (auto simp: selectKeyParams_def Let_def split: if_splits)
next
  case (Member k)
  with assms show ?thesis
    by (auto simp: selectKeyParams_def Let_def split: if_splits)
qed

lemma calculateMaxIterations_values: "calculateMaxIterations h el \<in> {5, 8, 12}"
  by (simp add: calculateMaxIterations_def Let_def)

lemma evaluate_without_properties:
  assumes "properties el = None"
  shows "evaluateComponentQualityStrict h cand el = Inl TypeError"
  using assms
  by (simp add: evaluateComponentQualityStrict_def evaluateColorMatch_def bind_def)

lemma optimization_raises_without_properties:
  assumes "properties el = None"
  shows "performAdaptiveOptimization h base el = Inl TypeError"
proof (cases "selectKeyParams h el")
  case (Inl e)
  then show ?thesis
    by (simp add: performAdaptiveOptimization_def error_is_TypeError)
next
  case keys: (Inr kp)
  let ?mx = "calculateMaxIterations h el"
  have mx: "0 < ?mx" using calculateMaxIterations_values [of h el] by auto
  show ?thesis
  proof (cases "generateAdaptiveVariants h base kp (calculateVariationIntensity 0 ?mx 0)")
    case (Inl e)
    then show ?thesis
      using mx keys by (simp add: performAdaptiveOptimization_def optimize.simps error_is_TypeError)
  next
    case (Inr vs)
    then obtain ps where kp: "kp = ParamList ps"
      by (cases kp) (auto simp: generateAdaptiveVariants_def)
    then have "ps \<noteq> []"
      using selectKeyParams_nonempty keys by blast
    then obtain v vs' where vs: "vs = v # vs'"
      using adaptive_variants_nonempty [of h base ps _ vs] Inr kp by (cases vs) auto
    show ?thesis
      using mx keys Inr vs evaluate_without_properties [OF assms]
      by (simp add: performAdaptiveOptimization_def optimize.simps)
  qed
qed

section \<open>The best candidate of a run\<close>

lemma basic_mapping_fields:
  assumes "performBasicMapping h el = Inr base"
  shows "quality base = Num (3 / 10) \<and> iterations base = 0
         \<and> baseParams base = extractBaseParams el \<and> c_id base = el_id el \<and> c_type base = el_type el"
  using assms by (auto simp: performBasicMapping_def bind_def Let_def split: sum.splits)


lemma optimize_improved_entries:
  assumes "optimize h el kp mx it cur bq bc stag = Inr (x, c, hist)"
    and "bq = Num b" and "quality bc = Num b" and "b < 95 / 100" and "b \<le> 1"
  shows "\<forall>e\<in>set hist. e_improved e \<longrightarrow> (\<exists>y. e_best e = Num y \<and> b < y)"
  using assms
proof (induction "mx - it" arbitrary: it cur bq bc stag hist b)
  case 0
  from "0.prems"(1-5) show ?case
    by (cases rule: optimize_step) (use "0.hyps" in auto)
next
  case (Suc n)
  have n: "n = mx - (it + 1)" using Suc.hyps(2) by simp
  from Suc.prems(1-5) show ?case
  proof (cases rule: optimize_step)
    case (improved e hist' bc' b')
    from Suc.hyps(1) [OF n improved(4) refl improved(5,6,7)]
    show ?thesis using improved(2,9,10) by fastforce
  next
    case (unimproved e hist')
    from Suc.hyps(1) [OF n unimproved(5) refl] Suc.prems(3,4,5)
    show ?thesis using unimproved(2,3) by simp
  qed auto
qed

text \<open>
  Claim C4. In a run of the loop started from a candidate of quality 0.3, the best
  quality at the end of each iteration never decreases from one iteration to the next,
  starting at 0.3; and the candidate returned, whichever way the loop ended, carries a
  quality that is at least 0.3, at least every quality evaluated in the run (a quality
  that is \<^verbatim>\<open>NaN\<close> compares with nothing), and is 0.3 or one of the evaluated qualities.
\<close>

theorem best_quality_monotone:
  assumes "quality base = Num (3 / 10)"
    and "performAdaptiveOptimization h base el = Inr (x, c, hist)"
  shows "sorted_wrt (\<lambda>u v. js_ge v u) (Num (3 / 10) # map e_best hist)
         \<and> (\<exists>q. quality c = Num q \<and> 3 / 10 \<le> q
                \<and> (\<forall>e\<in>set hist. \<forall>y. Num y \<in> set (e_evaluated e) \<longrightarrow> y \<le> q)
                \<and> (q = 3 / 10 \<or> (\<exists>e\<in>set hist. Num q \<in> set (e_evaluated e)))
                \<and> (hist \<noteq> [] \<longrightarrow> e_best (last hist) = Num q))"
proof -
  from assms(2) obtain kp where run: "optimize h el kp (calculateMaxIterations h el) 0
       base (quality base) base 0 = Inr (x, c, hist)"
    by (auto simp: performAdaptiveOptimization_def split: sum.splits)
  from optimize_quality [OF run assms(1) assms(1)]
  obtain q where q: "quality c = Num q" "3 / 10 \<le> q"
      "\<forall>e\<in>set hist. \<exists>y. e_best e = Num y \<and> 3 / 10 \<le> y \<and> y \<le> q"
      "sorted_wrt (\<lambda>u v. js_ge v u) (map e_best hist)"
      "\<forall>e\<in>set hist. \<forall>y. Num y \<in> set (e_evaluated e) \<longrightarrow> y \<le> q"
      "q = 3 / 10 \<or> (\<exists>e\<in>set hist. Num q \<in> set (e_evaluated e))"
      "hist \<noteq> [] \<longrightarrow> e_best (last hist) = Num q"
    by auto
  have "\<forall>e\<in>set hist. js_ge (e_best e) (Num (3 / 10))"
    using q(3) by (auto simp: js_ge_def)
  then have "sorted_wrt (\<lambda>u v. js_ge v u) (Num (3 / 10) # map e_best hist)"
    using q(4) by simp
  then show ?thesis using q by blast
qed


text \<open>
  Claim C9. \<^verbatim>\<open>performBasicMapping\<close> gives the base candidate the quality 0.3 without
  scoring it; when no variant evaluated in the run scores above 0.3, the run returns the
  base candidate itself, with quality 0.3 and 0 iterations.
\<close>

theorem unbeaten_base_is_returned:
  assumes "performBasicMapping h el = Inr base"
    and "performAdaptiveOptimization h base el = Inr (x, c, hist)"
    and "\<forall>e\<in>set hist. \<forall>q\<in>set (e_evaluated e). \<not> js_gt q (Num (3 / 10))"
  shows "quality base = Num (3 / 10) \<and> c = base \<and> quality c = Num (3 / 10) \<and> iterations c = 0"
proof -
  note b = basic_mapping_fields [OF assms(1)]
  then have qb: "quality base = Num (3 / 10)" by simp
  from assms(2) obtain kp where run: "optimize h el kp (calculateMaxIterations h el) 0
       base (quality base) base 0 = Inr (x, c, hist)"
    by (auto simp: performAdaptiveOptimization_def split: sum.splits)
  from optimize_quality [OF run qb qb]
  obtain q where q: "quality c = Num q" "3 / 10 \<le> q"
      "\<forall>e\<in>set hist. \<exists>y. e_best e = Num y \<and> 3 / 10 \<le> y \<and> y \<le> q"
      "q = 3 / 10 \<or> (\<exists>e\<in>set hist. Num q \<in> set (e_evaluated e))"
    by auto
  have "q = 3 / 10"
  proof (rule ccontr)
    assume "q \<noteq> 3 / 10"
    with q(4) obtain e where "e \<in> set hist" "Num q \<in> set (e_evaluated e)" by blast
    with assms(3) have "\<not> js_gt (Num q) (Num (3 / 10))" by blast
    with q(2) \<open>q \<noteq> 3 / 10\<close> show False by (simp add: js_gt_def)
  qed
  with q(3) have best: "\<forall>e\<in>set hist. e_best e = Num (3 / 10)" by fastforce
  have "\<forall>e\<in>set hist. \<not> e_improved e"
    using optimize_improved_entries [OF run qb qb] best by fastforce
  then have "c = base"
    using optimize_reported_iterations [OF run qb qb] by simp
  with b show ?thesis by simp
qed

section \<open>Runs of the example descriptors\<close>

lemma js_get_Nil: "js_get [] k' = JUndefined"
  by (simp add: js_get_def)

lemma js_get_Cons: "js_get ((k, v) # obj) k' = (if k = k' then v else js_get obj k')"
  by (simp add: js_get_def)

lemma js_get_with_prop:
  "js_get (with_prop obj k v) k' = (if k' = k then v else js_get obj k')"
  by (simp add: js_get_def with_prop_def update_conv')

lemma width_variations:
  "generateParamVariations h ''width'' (JNum (Num w)) (Num i) =
     Inr (map (\<lambda>f. JNum (rounded_product h (Num w) (Num (1 + (f - 1) * i))))
            [8 / 10, 9 / 10, 95 / 100, 105 / 100, 11 / 10, 12 / 10])"
  by (simp add: generateParamVariations_def paramVariations_def js_lookup_def sizeFactors_def
        js_sub_def Let_def)


lemmas run_simps = optimize.simps calculateVariationIntensity_def Math_min_def bind_def
  generateAdaptiveVariants_def width_variations js_get_with_prop js_get_Cons js_get_Nil
  js_gt_def js_ge_def qualityThreshold_def later_def















lemma titled_mapping: "performBasicMapping h titled_descriptor = Inr titled_base"
  by (simp add: performBasicMapping_def generateComponentName_def titled_descriptor_def titled_base_def
        typeMap_def typeMapping_def js_lookup_def inherited_members_def bind_def alphanumeric_def
        toUpperCase_char_def Let_def)

lemma titled_complexity: "analyzeComplexity h titled_descriptor = Num (2 / 5)"
  by (simp add: analyzeComplexity_def titled_descriptor_def keys_length_def js_get_opt_def js_or_def
        js_get_def Math_min_def)

lemma titled_allParams: "allParams h titled_descriptor = ParamList [''width'', ''height'']"
  by (simp add: allParams_def js_lookup_def optimizationParams_def inherited_members_def
        titled_descriptor_def)

lemma titled_keys: "selectKeyParams h titled_descriptor = Inr (ParamList [''width''])"
  "calculateMaxIterations h titled_descriptor = 8"
  by (simp_all add: selectKeyParams_def calculateMaxIterations_def titled_complexity js_gt_def
        titled_allParams Let_def)

lemma titled_evaluate:
  assumes "js_get (baseParams cand) ''title'' = JStr ''A''"
  shows "evaluateComponentQualityStrict h cand titled_descriptor = Inr (Num (57 / 200))"
  using assms
  by (simp add: evaluateComponentQualityStrict_def evaluateSizeMatch_def evaluateColorMatch_def
        evaluateTypographyMatch_def evaluateContentMatch_def color_check_def fontSize_check_def
        equal_check_def checked_score_def bind_def js_get_def titled_descriptor_def strict_eq_def
        Math_max_def Math_min_def)

lemma titled_run:
  "performAdaptiveOptimization h titled_base titled_descriptor =
     Inr (Stagnant, titled_base,
          [\<lparr>e_improved = False, e_best = Num (3 / 10), e_evaluated = [Num (57 / 200), Num (57 / 200), Num (57 / 200), Num (57 / 200), Num (57 / 200), Num (57 / 200)]\<rparr>,
           \<lparr>e_improved = False, e_best = Num (3 / 10), e_evaluated = [Num (57 / 200), Num (57 / 200), Num (57 / 200), Num (57 / 200), Num (57 / 200), Num (57 / 200)]\<rparr>,
           \<lparr>e_improved = False, e_best = Num (3 / 10), e_evaluated = [Num (57 / 200), Num (57 / 200), Num (57 / 200), Num (57 / 200), Num (57 / 200), Num (57 / 200)]\<rparr>])"
  by (simp add: performAdaptiveOptimization_def titled_keys optimize.simps
      calculateVariationIntensity_def Math_min_def bind_def generateAdaptiveVariants_def
      titled_base_def [unfolded extractBaseParams_def titled_descriptor_def js_get_opt_def js_or_def js_get_def, simplified]
      width_variations js_get_with_prop js_get_Cons js_get_Nil titled_evaluate js_gt_def js_ge_def qualityThreshold_def
      later_def)

lemma empty_properties_complexity:
  "analyzeComplexity h descriptor_empty_properties = Num (ln 60001 * (5 / 100))"
  using ln_60001_bounds
  by (simp add: analyzeComplexity_def descriptor_empty_properties_def keys_length_def
        js_get_opt_def js_or_def js_get_def Math_min_def)

lemma empty_properties_keys:
  "selectKeyParams h descriptor_empty_properties = Inr (ParamList [''width''])"
  "calculateMaxIterations h descriptor_empty_properties = 8"
  using ln_60001_bounds
  by (simp_all add: selectKeyParams_def calculateMaxIterations_def empty_properties_complexity
        js_gt_def allParams_def js_lookup_def optimizationParams_def inherited_members_def Let_def
        descriptor_empty_properties_def [THEN arg_cong, of el_type])

lemma empty_properties_evaluate:
  assumes "js_get (baseParams cand) ''width'' = JNum (Num w)"
    and "js_get (baseParams cand) ''height'' = JNum (Num 200)"
  shows "evaluateComponentQualityStrict h cand descriptor_empty_properties
           = Inr (Num (3 / 10 + 2 / 5 * ((max 0 (1 - \<bar>w - 300\<bar> / 300 * 2) + 1) / 2)))"
proof -
  have p1: "\<bar>w - 300\<bar> < 150 \<Longrightarrow> 0 < 3 / 10 + (4 - \<bar>w - 300\<bar> / 75) / 10"
    by (simp add: field_simps)
  have p2: "3 / 10 + (4 - \<bar>w - 300\<bar> / 75) / 10 < 1"
    using abs_ge_zero [of "w - 300"] by (simp add: field_simps)
  show ?thesis
    using assms p1 p2
    by (simp add: evaluateComponentQualityStrict_def evaluateSizeMatch_def size_axis_def
        evaluateColorMatch_def evaluateTypographyMatch_def evaluateContentMatch_def
        color_check_def fontSize_check_def equal_check_def checked_score_def bind_def js_get_Nil
        js_get_Cons descriptor_empty_properties_def js_sub_def Math_max_def Math_min_def max_def
        Let_def)
qed

lemma clamp_id:
  assumes "0 \<le> v" and "v \<le> 1"
  shows "Math_max (Num 0) (Math_min (Num 1) (Num v)) = Num v"
  using assms by (auto simp: Math_max_def Math_min_def)

lemma size_axis_range:
  assumes "js_get pos k = JNum (Num p)" and "0 < p"
  shows "size_axis h params pos k = NaN
         \<or> (\<exists>r. size_axis h params pos k = Num r \<and> 0 \<le> r \<and> r \<le> 1)"
proof (cases "ToNumber h (js_get params k)")
  case (Num a)
  have "0 \<le> \<bar>a - p\<bar> / p" using assms(2) by simp
  then show ?thesis
    using assms Num by (simp add: size_axis_def js_sub_def Math_max_def)
qed (use assms in \<open>simp_all add: size_axis_def js_sub_def Math_max_def signed_inf_def\<close>)

lemma empty_properties_bound:
  "evaluateComponentQualityStrict h cand descriptor_empty_properties = Inr NaN
   \<or> (\<exists>q. evaluateComponentQualityStrict h cand descriptor_empty_properties = Inr (Num q)
           \<and> q \<le> 7 / 10)"
proof -
  let ?pos = "[(''width'', JNum (Num 300)), (''height'', JNum (Num 200))]"
  let ?w = "size_axis h (baseParams cand) ?pos ''width''"
  let ?ht = "size_axis h (baseParams cand) ?pos ''height''"
  have w: "?w = NaN \<or> (\<exists>r. ?w = Num r \<and> 0 \<le> r \<and> r \<le> 1)"
    by (rule size_axis_range [of _ _ 300]) (simp_all add: js_get_Cons)
  have ht: "?ht = NaN \<or> (\<exists>r. ?ht = Num r \<and> 0 \<le> r \<and> r \<le> 1)"
    by (rule size_axis_range [of _ _ 200]) (simp_all add: js_get_Cons)
  have ev: "evaluateComponentQualityStrict h cand descriptor_empty_properties
          = Inr (Math_max (Num 0) (Math_min (Num 1)
              (js_add (js_add (js_add (js_add (Num 0)
                 (js_mul (js_div (js_add ?w ?ht) (Num 2)) (Num (2 / 5))))
                 (Num (1 / 8))) (Num (1 / 10))) (Num (3 / 40)))))"
    by (simp add: evaluateComponentQualityStrict_def evaluateSizeMatch_def
        evaluateColorMatch_def evaluateTypographyMatch_def evaluateContentMatch_def
        color_check_def fontSize_check_def equal_check_def checked_score_def bind_def js_get_Nil
        descriptor_empty_properties_def Let_def)
  from w ht show ?thesis
  proof (elim disjE exE conjE)
    fix r s
    assume r: "?w = Num r" "0 \<le> r" "r \<le> 1" and s: "?ht = Num s" "0 \<le> s" "s \<le> 1"
    let ?q = "3 / 10 + 2 / 5 * ((r + s) / 2)"
    have lo: "0 \<le> ?q" using r s by simp
    have hi: "?q \<le> 7 / 10" using r s by (simp add: field_simps)
    have hi1: "?q \<le> 1" using hi by (rule order_trans) simp
    have "evaluateComponentQualityStrict h cand descriptor_empty_properties
            = Inr (Math_max (Num 0) (Math_min (Num 1) (Num ?q)))"
      unfolding ev r(1) s(1) by (simp add: algebra_simps)
    then have "evaluateComponentQualityStrict h cand descriptor_empty_properties = Inr (Num ?q)"
      by (simp only: clamp_id [OF lo hi1])
    with hi show ?thesis by blast
  qed (simp_all add: ev Math_max_def Math_min_def)
qed

lemma outline_run:
  assumes "outline r = Inr (x, c, pairs)"
  obtains hist where "r = Inr (x, c, hist)" "map e_improved hist = map fst pairs"
    "map e_best hist = map snd pairs"
  using assms by (auto simp: outline_def comp_def split: sum.splits)

lemma empty_properties_run:
  "outline (performAdaptiveOptimization h (matching_candidate descriptor_empty_properties)
       descriptor_empty_properties) =
     Inr (Stagnant,
          (matching_candidate descriptor_empty_properties)\<lparr>quality := Num (7 / 10), iterations := 2\<rparr>,
          [(True, Num (262 / 375)), (True, Num (7 / 10)), (False, Num (7 / 10)),
           (False, Num (7 / 10)), (False, Num (7 / 10))])"
  by (simp add: outline_def performAdaptiveOptimization_def empty_properties_keys run_simps
      matching_candidate_def [of descriptor_empty_properties,
         unfolded extractBaseParams_def descriptor_empty_properties_def js_get_opt_def js_or_def js_get_def, simplified,
         folded descriptor_empty_properties_def]
      empty_properties_evaluate with_prop_def)















section \<open>The batch\<close>













text \<open>
  A descriptor whose type is the name of an inherited member gets the fallback: its key
  parameters cannot be selected.
\<close>

lemma constructor_element:
  "processElement h constructor_descriptor = Inr constructor_artifact"
proof -
  have a: "allParams h constructor_descriptor = Member ''constructor''"
    by (simp add: allParams_def js_lookup_def optimizationParams_def inherited_members_def
          constructor_descriptor_def)
  have c: "analyzeComplexity h constructor_descriptor = Num (ln 60001 * (5 / 100))"
    using ln_60001_bounds
    by (simp add: analyzeComplexity_def constructor_descriptor_def keys_length_def
          js_get_opt_def js_or_def js_get_def Math_min_def)
  have k: "selectKeyParams h constructor_descriptor = Inl TypeError"
    using ln_60001_bounds by (simp add: selectKeyParams_def a c js_gt_def Let_def)
  have "\<exists>base. performBasicMapping h constructor_descriptor = Inr base"
    by (simp add: performBasicMapping_def generateComponentName_def constructor_descriptor_def
          bind_def Let_def)
  then have "processElementTry h constructor_descriptor = Inl TypeError"
    by (auto simp: processElementTry_def performAdaptiveOptimization_def k bind_def)
  then show ?thesis
    by (simp add: processElement_def generateFallbackComponent_def generateComponentName_def
          generateGenericCode_def constructor_descriptor_def constructor_artifact_def typeMap_def
          js_lookup_def inherited_members_def member_text_def bind_def alphanumeric_def
          toUpperCase_char_def Let_def)
qed



text \<open>
  Claim C1 as stated fails. On the descriptor \<^verbatim>\<open>{position: {width: 300, height: 200}}\<close>
  the loop raises in its first evaluation; and were the \<^verbatim>\<open>properties\<close> object there but
  empty, the matching candidate itself would score 0.7, below the threshold.
\<close>

theorem matching_candidate_never_reaches_threshold:
  "performAdaptiveOptimization sample_host
      (matching_candidate descriptor_without_properties) descriptor_without_properties
     = Inl TypeError
   \<and> evaluateComponentQualityStrict sample_host
        (matching_candidate descriptor_empty_properties) descriptor_empty_properties
     = Inr (Num (7 / 10))"
proof -
  have "evaluateComponentQualityStrict sample_host
        (matching_candidate descriptor_empty_properties) descriptor_empty_properties
     = Inr (Num (7 / 10))"
    by (subst empty_properties_evaluate [of _ 300])
       (simp_all add: matching_candidate_def extractBaseParams_def descriptor_empty_properties_def
          js_get_opt_def js_or_def js_get_Cons js_get_Nil)
  then show ?thesis
    using optimization_raises_without_properties [of descriptor_without_properties]
    by (simp add: descriptor_without_properties_def)
qed

text \<open>
  Claim C1, as amended. For the descriptor
  \<^verbatim>\<open>{position: {width: 300, height: 200}, properties: {}}\<close> and the candidate that matches
  it, the loop does not reach the threshold: whatever the parameters of a candidate, its
  score is at most 0.7 (0.4 for the size and the neutral 0.5 of the three other
  factors). The first iteration improves the base 0.3, the second reaches 0.7, three
  iterations without improvement follow, and the loop ends Stagnant with quality 0.7 and
  \<^verbatim>\<open>iterations\<close> 2, in the fifth of at most 8 iterations.
\<close>

theorem empty_properties_candidate_stagnates:
  "outline (performAdaptiveOptimization h (matching_candidate descriptor_empty_properties)
       descriptor_empty_properties) =
     Inr (Stagnant,
          (matching_candidate descriptor_empty_properties)\<lparr>quality := Num (7 / 10), iterations := 2\<rparr>,
          [(True, Num (262 / 375)), (True, Num (7 / 10)), (False, Num (7 / 10)),
           (False, Num (7 / 10)), (False, Num (7 / 10))])
   \<and> calculateMaxIterations h descriptor_empty_properties = 8
   \<and> (\<forall>cand. evaluateComponentQualityStrict h cand descriptor_empty_properties = Inr NaN
          \<or> (\<exists>q. evaluateComponentQualityStrict h cand descriptor_empty_properties = Inr (Num q)
                  \<and> q \<le> 7 / 10))"
  using empty_properties_bound [of h] by (simp add: empty_properties_run empty_properties_keys)

theorem best_quality_monotone_witness:
  "quality (matching_candidate descriptor_empty_properties) = Num (3 / 10)
   \<and> (\<exists>x c hist.
         performAdaptiveOptimization sample_host (matching_candidate descriptor_empty_properties)
           descriptor_empty_properties = Inr (x, c, hist)
         \<and> sorted_wrt (\<lambda>u v. js_ge v u) (Num (3 / 10) # map e_best hist)
         \<and> map e_best hist
             = [Num (262 / 375), Num (7 / 10), Num (7 / 10), Num (7 / 10), Num (7 / 10)]
         \<and> quality c = Num (7 / 10))"
proof -
  have q: "quality (matching_candidate descriptor_empty_properties) = Num (3 / 10)"
    by (simp add: matching_candidate_def)
  from empty_properties_run [of sample_host]
  obtain hist where run: "performAdaptiveOptimization sample_host
        (matching_candidate descriptor_empty_properties) descriptor_empty_properties
      = Inr (Stagnant,
          (matching_candidate descriptor_empty_properties)\<lparr>quality := Num (7 / 10), iterations := 2\<rparr>,
          hist)"
    and best: "map e_best hist
             = [Num (262 / 375), Num (7 / 10), Num (7 / 10), Num (7 / 10), Num (7 / 10)]"
    by (rule outline_run) simp
  from best_quality_monotone [OF q run]
  have "sorted_wrt (\<lambda>u v. js_ge v u) (Num (3 / 10) # map e_best hist)"
    by blast
  with q run best show ?thesis
    by (intro conjI exI) (assumption, assumption, assumption, assumption, simp)
qed




theorem unbeaten_base_is_returned_witness:
  "performBasicMapping sample_host titled_descriptor = Inr titled_base
   \<and> (\<exists>x c hist.
         performAdaptiveOptimization sample_host titled_base titled_descriptor = Inr (x, c, hist)
         \<and> concat (map e_evaluated hist) = replicate 18 (Num (57 / 200))
         \<and> c = titled_base \<and> quality c = Num (3 / 10) \<and> iterations c = 0)
   \<and> evaluateComponentQualityStrict sample_host titled_base titled_descriptor
       = Inr (Num (57 / 200))"
proof -
  note m = titled_mapping [of sample_host]
  note run = titled_run [of sample_host]
  have "quality titled_base = Num (3 / 10) \<and> titled_base = titled_base
        \<and> quality titled_base = Num (3 / 10) \<and> iterations titled_base = 0"
    by (rule unbeaten_base_is_returned [OF m run]) (simp add: js_gt_def)
  moreover have "evaluateComponentQualityStrict sample_host titled_base titled_descriptor
       = Inr (Num (57 / 200))"
    by (rule titled_evaluate)
       (simp add: titled_base_def extractBaseParams_def titled_descriptor_def js_get_opt_def
          js_or_def js_get_Cons js_get_Nil)
  ultimately show ?thesis
    using m run by (intro conjI exI) (assumption, assumption, simp_all add: numeral_eq_Suc)
qed

end
